theory Spec2Isabelle
  imports Main "HOL-Library.Word" "HOL-Library.AList" "HOL-Library.Multiset"
begin

unbundle bit_operations_syntax

chapter \<open>The go-micro router and its etcd registry adapter\<close>

section \<open>Routes and the route hash (router/route.go)\<close>

text \<open>
  Go strings are byte sequences; a \<open>string\<close> here is a list of 8-bit characters, and
  \<open>of_char\<close> reads one byte as an unsigned number. \<open>Metric\<close> is Go's \<open>int64\<close>.
\<close>

record Route =
  Service :: string
  Version :: string
  Address :: string
  Gateway :: string
  Network :: string
  Router :: string
  Link :: string
  Metric :: "64 word"
  Metadata :: "string \<rightharpoonup> string"

definition DefaultLink :: string where
  "DefaultLink = ''local''"

definition DefaultLocalMetric :: "64 word" where
  "DefaultLocalMetric = 1"

subsection \<open>Go's hash/fnv, as far as \<open>Route.Hash\<close> uses it\<close>

text \<open>
  \<open>fnv.New64()\<close> of the Go standard library returns the 64-bit FNV-1 hash object
  (\<open>type sum64 uint64\<close>); the FNV-1a one is \<open>fnv.New64a()\<close>, which the router does not
  call. \<open>Reset\<close> stores the offset basis, \<open>Write\<close> runs
  \<^verbatim>\<open>for _, c := range data { hash *= prime64; hash ^= sum64(c) }\<close>
  and \<open>Sum64\<close> reads the state.
\<close>

type_synonym sum64 = "64 word"

definition offset64 :: "64 word" where
  "offset64 = 14695981039346656037"

definition prime64 :: "64 word" where
  "prime64 = 1099511628211"

definition New64 :: sum64 where
  "New64 = offset64"

definition Reset :: "sum64 \<Rightarrow> sum64" where
  "Reset s = offset64"

fun Write :: "sum64 \<Rightarrow> string \<Rightarrow> sum64" where
  "Write hash [] = hash"
| "Write hash (c # data) = Write ((hash * prime64) XOR of_char c) data"

definition Sum64 :: "sum64 \<Rightarrow> 64 word" where
  "Sum64 s = s"

text \<open>
  \<^verbatim>\<open>func (r *Route) Hash() uint64 {
      h := fnv.New64()
      h.Reset()
      h.Write([]byte(r.Service + r.Version + r.Address + r.Gateway + r.Network + r.Router + r.Link))
      return h.Sum64()
  }\<close>
\<close>

definition Hash :: "Route \<Rightarrow> 64 word" where
  "Hash r =
     (let h = New64;
          h = Reset h;
          h = Write h (Service r @ Version r @ Address r @ Gateway r @ Network r @ Router r @ Link r)
      in Sum64 h)"

subsection \<open>The two FNV variants as the specification names them\<close>

text \<open>
  FNV-1 multiplies by the prime and then xors the byte in; FNV-1a xors first and
  multiplies afterwards. Both start from the same offset basis.
\<close>

definition fnv1_64 :: "string \<Rightarrow> 64 word" where
  "fnv1_64 data = foldl (\<lambda>h c. (h * prime64) XOR of_char c) offset64 data"

definition fnv1a_64 :: "string \<Rightarrow> 64 word" where
  "fnv1a_64 data = foldl (\<lambda>h c. (h XOR of_char c) * prime64) offset64 data"

definition identity_bytes :: "Route \<Rightarrow> string" where
  "identity_bytes r =
     Service r @ Version r @ Address r @ Gateway r @ Network r @ Router r @ Link r"


section \<open>Errors\<close>

text \<open>
  Go errors as values. \<open>errors_New\<close> is \<open>errors.New\<close>; \<open>fmt_Errorf\<close> keeps the format
  string and the arguments of \<open>fmt.Errorf\<close> instead of the rendered text.
  \<open>ErrDuplicateRoute\<close> and \<open>ErrRouteNotFound\<close> are the router's sentinels,
  \<open>ErrNotFound\<close> is \<open>registry.ErrNotFound\<close>, \<open>ErrLeaseNotFound\<close> is
  \<open>rpctypes.ErrLeaseNotFound\<close>.
\<close>

datatype error =
    ErrDuplicateRoute
  | ErrRouteNotFound
  | ErrNotFound
  | ErrLeaseNotFound
  | errors_New string
  | fmt_Errorf string "fmt_arg list"
and fmt_arg =
    ArgString string
  | ArgError error

section \<open>The router (router/default.go)\<close>

subsection \<open>Events, adverts and options\<close>

text \<open>
  Modelled from the spec: the declarations of \<open>EventType\<close>, \<open>Event\<close>, \<open>Advert\<close>,
  \<open>AdvertType\<close>, \<open>Strategy\<close> and \<open>Options\<close> are not among the source files. The
  specification gives \<open>Event = {Type \<in> {Create, Update, Delete}, Timestamp, Route}\<close>,
  \<open>Advert = {Id, Type \<in> {Announce, RouteUpdate}, TTL, Timestamp, Events[]}\<close> and the four
  strategies; \<open>EventType_String\<close> renders a type as the action name that \<open>manageRoute\<close>
  switches on. A \<open>time.Time\<close> is a number of nanoseconds.
\<close>

datatype EventType = Create | Delete | Update

fun EventType_String :: "EventType \<Rightarrow> string" where
  "EventType_String Create = ''create''"
| "EventType_String Delete = ''delete''"
| "EventType_String Update = ''update''"

record Event =
  Type :: EventType
  Timestamp :: int
  Route :: Route

datatype AdvertType = Announce | RouteUpdate

record Advert =
  Id_a :: string
  Type_a :: AdvertType
  TTL_a :: int
  Timestamp_a :: int
  Events :: "Event list"

datatype Strategy = AdvertiseAll | AdvertiseBest | AdvertiseLocal | AdvertiseNone

record Options =
  Id_o :: string
  Gateway_o :: string
  Network_o :: string
  Advertise :: Strategy
  Prewarm :: bool

subsection \<open>The routing table, as the router calls it\<close>

text \<open>
  The table (\<open>r.table\<close>) is not among the source files. The router's functions take its
  three mutating operations as a parameter: each receives a route and the table state and
  returns the error (\<open>None\<close> is Go's \<open>nil\<close>) with the new state. What is proved of
  \<open>Process\<close> below holds for every such table.
\<close>

record 't Table =
  table_Create :: "Route \<Rightarrow> 't \<Rightarrow> error option \<times> 't"
  table_Delete :: "Route \<Rightarrow> 't \<Rightarrow> error option \<times> 't"
  table_Update :: "Route \<Rightarrow> 't \<Rightarrow> error option \<times> 't"

text \<open>
  Modelled from the spec: a table to run the router on, after section 4.3: routes are kept
  by \<open>(Service, hash)\<close>; \<open>Create\<close> fails with \<open>ErrDuplicateRoute\<close> when the hash is
  present, \<open>Delete\<close> fails with \<open>ErrRouteNotFound\<close> when it is absent, \<open>Update\<close> is an
  upsert by hash. Watchers are left out.
\<close>

definition same_route :: "Route \<Rightarrow> Route \<Rightarrow> bool" where
  "same_route r r' \<longleftrightarrow> Service r' = Service r \<and> Hash r' = Hash r"

definition spec_Create :: "Route \<Rightarrow> Route list \<Rightarrow> error option \<times> Route list" where
  "spec_Create r t =
     (if list_ex (same_route r) t then (Some ErrDuplicateRoute, t) else (None, t @ [r]))"

definition spec_Delete :: "Route \<Rightarrow> Route list \<Rightarrow> error option \<times> Route list" where
  "spec_Delete r t =
     (if list_ex (same_route r) t then (None, filter (\<lambda>r'. \<not> same_route r r') t)
      else (Some ErrRouteNotFound, t))"

definition spec_Update :: "Route \<Rightarrow> Route list \<Rightarrow> error option \<times> Route list" where
  "spec_Update r t =
     (if list_ex (same_route r) t
      then (None, map (\<lambda>r'. if same_route r r' then r else r') t)
      else (None, t @ [r]))"

definition spec_table :: "Route list Table" where
  "spec_table =
     \<lparr>table_Create = spec_Create, table_Delete = spec_Delete, table_Update = spec_Update\<rparr>"

subsection \<open>manageRoute and Process\<close>

text \<open>
  \<^verbatim>\<open>switch action {
  case "create": if err := r.table.Create(route); err != nil && err != ErrDuplicateRoute { return fmt.Errorf(...) }
  case "delete": if err := r.table.Delete(route); err != nil && err != ErrRouteNotFound { return fmt.Errorf(...) }
  case "update": if err := r.table.Update(route); err != nil { return fmt.Errorf(...) }
  default:       return fmt.Errorf(...)
  }
  return nil\<close>
\<close>

definition manageRoute :: "'t Table \<Rightarrow> Route \<Rightarrow> string \<Rightarrow> 't \<Rightarrow> error option \<times> 't" where
  "manageRoute tb route action t =
     (if action = ''create'' then
        (case table_Create tb route t of
           (Some err, t') \<Rightarrow>
             if err \<noteq> ErrDuplicateRoute
             then (Some (fmt_Errorf ''failed adding route for service %s: %s''
                     [ArgString (Service route), ArgError err]), t')
             else (None, t')
         | (None, t') \<Rightarrow> (None, t'))
      else if action = ''delete'' then
        (case table_Delete tb route t of
           (Some err, t') \<Rightarrow>
             if err \<noteq> ErrRouteNotFound
             then (Some (fmt_Errorf ''failed deleting route for service %s: %s''
                     [ArgString (Service route), ArgError err]), t')
             else (None, t')
         | (None, t') \<Rightarrow> (None, t'))
      else if action = ''update'' then
        (case table_Update tb route t of
           (Some err, t') \<Rightarrow>
             (Some (fmt_Errorf ''failed updating route for service %s: %s''
                [ArgString (Service route), ArgError err]), t')
         | (None, t') \<Rightarrow> (None, t'))
      else
        (Some (fmt_Errorf ''failed to manage route for service %s: unknown action %s''
           [ArgString (Service route), ArgString action]), t))"

text \<open>
  The loop of \<open>Process\<close> over the sorted events: an event whose route names this router
  as its origin is skipped (\<open>continue\<close>); the first error of \<open>manageRoute\<close> ends the loop.
\<close>

fun Process_loop :: "'t Table \<Rightarrow> Options \<Rightarrow> Event list \<Rightarrow> 't \<Rightarrow> error option \<times> 't" where
  "Process_loop tb options [] t = (None, t)"
| "Process_loop tb options (event # events) t =
     (if Router (Route event) = Id_o options then Process_loop tb options events t
      else
        let route = Route event;
            action = Type event
        in case manageRoute tb route (EventType_String action) t of
             (Some err, t') \<Rightarrow>
               (Some (fmt_Errorf ''failed applying action %s to routing table: %s''
                  [ArgString (EventType_String action), ArgError err]), t')
           | (None, t') \<Rightarrow> Process_loop tb options events t')"

text \<open>
  \<open>Process\<close> copies the advert's events and sorts the copy with \<open>sort.Slice\<close> by
  \<open>Timestamp.Before\<close>. \<open>sort.Slice\<close> is not stable: it returns the events sorted by
  timestamp, and the order among events with equal timestamps depends on the sorting
  algorithm of the Go release. The sort is therefore a parameter of \<open>Process\<close>, and
  \<open>sort_Slice_returns es out\<close> is what every \<open>sort.Slice\<close> guarantees of its result
  \<open>out\<close> on the events \<open>es\<close>: the same events, each as often as before, and none
  before an event with an earlier timestamp.
\<close>

definition sort_Slice_returns :: "Event list \<Rightarrow> Event list \<Rightarrow> bool" where
  "sort_Slice_returns es out \<longleftrightarrow> mset out = mset es \<and> sorted (map Timestamp out)"

definition Process ::
  "'t Table \<Rightarrow> Options \<Rightarrow> (Event list \<Rightarrow> Event list) \<Rightarrow> Advert \<Rightarrow> 't \<Rightarrow> error option \<times> 't" where
  "Process tb options sort_Slice a t =
     (let events = sort_Slice (Events a)
      in Process_loop tb options events t)"

subsection \<open>advertiseEvents: the event coalescer\<close>

text \<open>
  \<open>adverts\<close> is Go's \<open>map[uint64]*Event\<close>. It is kept as an association list with at
  most one entry per key, in order of insertion, so that the \<open>range\<close> of the tick branch
  has a definite order (Go leaves that order open). The events are never written through
  the stored pointers, so the list holds the events themselves.
\<close>

type_synonym adverts = "(64 word \<times> Event) list"

text \<open>
  The state of the \<open>for { select { ... } }\<close> loop: the pending map, and the calls
  \<open>go r.publishAdvert(RouteUpdate, events)\<close> made so far, oldest first.
\<close>

record advertise_state =
  pending :: adverts
  published :: "(AdvertType \<times> Event list) list"

text \<open>What the \<open>select\<close> receives: a tick, a value from \<open>r.eventChan\<close> (possibly
  \<open>nil\<close>), or the closing of \<open>r.exit\<close>.\<close>

datatype signal = Tick | TableEvent "Event option" | Exit

text \<open>
  The tick branch: every pending event that passes the strategy filter is copied into the
  batch and deleted from the map; a non-empty batch is published.
\<close>

definition on_tick :: "Options \<Rightarrow> advertise_state \<Rightarrow> advertise_state" where
  "on_tick options st =
     (if Advertise options = AdvertiseNone then st
      else
        let skipped = (\<lambda>(key, event).
              Advertise options = AdvertiseLocal \<and> Link (Route event) \<noteq> ''local'');
            events = map snd (filter (\<lambda>kv. \<not> skipped kv) (pending st));
            adverts = filter skipped (pending st)
        in if length events > 0
           then st\<lparr>pending := adverts, published := published st @ [(RouteUpdate, events)]\<rparr>
           else st\<lparr>pending := adverts\<rparr>)"

text \<open>
  The event branch.
  \<^verbatim>\<open>hash := e.Route.Hash()
  ev, ok := adverts[hash]
  if !ok {
      ev = e
      adverts[hash] = e
      continue
  }
  // override the route event only if the previous event was different
  if ev.Type != e.Type {
      ev = e
  }\<close>
  The last assignment is to the local variable \<open>ev\<close>, which is not read again: the map
  keeps the entry it had.
\<close>

definition on_event :: "Options \<Rightarrow> Event option \<Rightarrow> advertise_state \<Rightarrow> advertise_state" where
  "on_event options eo st =
     (case eo of
        None \<Rightarrow> st
      | Some e \<Rightarrow>
          if Advertise options = AdvertiseNone then st
          else if Advertise options = AdvertiseLocal \<and> Link (Route e) \<noteq> ''local'' then st
          else
            let hash = Hash (Route e)
            in (case map_of (pending st) hash of
                  None \<Rightarrow> (st\<lparr>pending := pending st @ [(hash, e)]\<rparr>)
                | Some ev \<Rightarrow>
                    (let ev = (if Type ev \<noteq> Type e then e else ev)
                     in st)))"

text \<open>
  The loop over the signals it receives. It returns when \<open>r.exit\<close> is closed; the
  signals after that are not read. A list of signals without \<open>Exit\<close> leaves the loop
  waiting in the state returned.
\<close>

fun advertiseEvents :: "Options \<Rightarrow> signal list \<Rightarrow> advertise_state \<Rightarrow> advertise_state" where
  "advertiseEvents options [] st = st"
| "advertiseEvents options (Tick # sigs) st = advertiseEvents options sigs (on_tick options st)"
| "advertiseEvents options (TableEvent e # sigs) st =
     advertiseEvents options sigs (on_event options e st)"
| "advertiseEvents options (Exit # sigs) st = st"

definition advertise_init :: advertise_state where
  "advertise_init = \<lparr>pending = [], published = []\<rparr>"


section \<open>The etcd registry adapter (registry/etcd)\<close>

subsection \<open>Services, nodes and stored key-values\<close>

text \<open>
  Modelled from the spec: the declarations of \<open>registry.Service\<close>, \<open>registry.Node\<close>
  and of the option structs of the registry package are outside the source files; the
  specification gives \<open>{Name, Version, Metadata, Endpoints[], Nodes[{Id, Address, Metadata}]}\<close>
  and the options \<open>Domain\<close>, \<open>TTL\<close> and \<open>Service\<close>. These are the fields the adapter reads. A \<open>nil\<close>
  metadata map and an empty one are both the empty map: the adapter only ever stores
  into it. Endpoints are kept by name. Of \<open>mvccpb.KeyValue\<close> the adapter reads
  \<open>Key\<close>, \<open>Value\<close> and \<open>Lease\<close>; a \<open>clientv3.LeaseID\<close> is an \<open>int64\<close> that is only
  compared, never computed with.
\<close>

record Node =
  Id_n :: string
  Address_n :: string
  Metadata_n :: "string \<rightharpoonup> string"

record registry_Service =
  Name :: string
  Version_s :: string
  Metadata_s :: "string \<rightharpoonup> string"
  Endpoints :: "string list"
  Nodes :: "Node list"

record KeyValue =
  Key :: string
  Value :: string
  Lease :: int

definition prefix :: string where
  "prefix = ''/platform''"

definition defaultDomain :: string where
  "defaultDomain = ''inf''"

text \<open>
  Modelled from the spec: \<open>registry.WildcardDomain\<close> is declared outside the source
  files; the specification gives the distinguished value \<open>"*"\<close>.
\<close>

definition WildcardDomain :: string where
  "WildcardDomain = ''*''"

subsection \<open>Library functions the adapter calls\<close>

text \<open>
  \<open>encoding/json\<close> and \<open>hashstructure\<close> are parameters: \<open>json_Marshal\<close> gives the bytes
  of a service, \<open>json_Unmarshal\<close> the service decoded from bytes (\<open>None\<close> when the pointer
  passed to it stays \<open>nil\<close>), \<open>hash_Hash\<close> the structural hash of a node or its error.
\<close>

record Lib =
  json_Marshal :: "registry_Service \<Rightarrow> string"
  json_Unmarshal :: "string \<Rightarrow> registry_Service option"
  hash_Hash :: "Node \<Rightarrow> error + 64 word"

definition encode :: "Lib \<Rightarrow> registry_Service \<Rightarrow> string" where
  "encode lib s = json_Marshal lib s"

definition decode :: "Lib \<Rightarrow> string \<Rightarrow> registry_Service option" where
  "decode lib ds = json_Unmarshal lib ds"

text \<open>
  \<open>strings.Replace(s, "/", "-", -1)\<close> and \<open>strings.ReplaceAll(s, "/", "-")\<close>: every
  occurrence of the one-byte string is replaced.
\<close>

definition strings_ReplaceAll :: "string \<Rightarrow> char \<Rightarrow> char \<Rightarrow> string" where
  "strings_ReplaceAll s old new = map (\<lambda>c. if c = old then new else c) s"

definition strings_HasPrefix :: "string \<Rightarrow> string \<Rightarrow> bool" where
  "strings_HasPrefix s p \<longleftrightarrow> take (length p) s = p"

fun strings_Contains :: "string \<Rightarrow> string \<Rightarrow> bool" where
  "strings_Contains [] substr = (substr = [])"
| "strings_Contains (c # s) substr =
     (strings_HasPrefix (c # s) substr \<or> strings_Contains s substr)"

text \<open>
  Go's \<open>path\<close> package. \<open>path.Split\<close> cuts after the last slash. \<open>path.Clean\<close> follows
  its documented rules: repeated slashes collapse, \<open>.\<close> elements go, an inner \<open>..\<close>
  removes the element before it, \<open>..\<close> at the start of a rooted path goes, and the empty
  result is \<open>.\<close>. \<open>path.Join\<close> joins the non-empty elements with slashes and cleans the
  result; with no non-empty element it returns the empty string.
\<close>

definition path_Split :: "string \<Rightarrow> string \<times> string" where
  "path_Split p =
     (let file = rev (takeWhile (\<lambda>c. c \<noteq> CHR ''/'') (rev p))
      in (take (length p - length file) p, file))"

fun split_on :: "char \<Rightarrow> string \<Rightarrow> string list" where
  "split_on sep [] = [[]]"
| "split_on sep (c # cs) =
     (if c = sep then [] # split_on sep cs
      else (case split_on sep cs of [] \<Rightarrow> [[c]] | x # xs \<Rightarrow> (c # x) # xs))"

fun join_with :: "string \<Rightarrow> string list \<Rightarrow> string" where
  "join_with sep [] = []"
| "join_with sep [x] = x"
| "join_with sep (x # y # ys) = x @ sep @ join_with sep (y # ys)"

definition clean_step :: "bool \<Rightarrow> string list \<Rightarrow> string \<Rightarrow> string list" where
  "clean_step rooted out el =
     (if el = ''..'' then
        (if out \<noteq> [] \<and> last out \<noteq> ''..'' then butlast out
         else if rooted then out
         else out @ [''..''])
      else out @ [el])"

definition path_Clean :: "string \<Rightarrow> string" where
  "path_Clean p =
     (if p = [] then ''.''
      else
        let rooted = (hd p = CHR ''/'');
            elems = filter (\<lambda>el. el \<noteq> [] \<and> el \<noteq> ''.'') (split_on (CHR ''/'') p);
            out = (if rooted then ''/'' else []) @ join_with ''/'' (foldl (clean_step rooted) [] elems)
        in if out = [] then ''.'' else out)"

definition path_Join :: "string list \<Rightarrow> string" where
  "path_Join elem =
     (let es = filter (\<lambda>e. e \<noteq> []) elem
      in if es = [] then [] else path_Clean (join_with ''/'' es))"

definition prefixWithDomain :: "string \<Rightarrow> string" where
  "prefixWithDomain domain = path_Join [prefix, domain]"

definition serializeServiceName :: "string \<Rightarrow> string" where
  "serializeServiceName s = strings_ReplaceAll s (CHR ''/'') (CHR ''-'')"

definition servicePath :: "string \<Rightarrow> string \<Rightarrow> string" where
  "servicePath domain s = path_Join [prefixWithDomain domain, serializeServiceName s]"

definition nodePath :: "string \<Rightarrow> string \<Rightarrow> string \<Rightarrow> string" where
  "nodePath domain s node_id =
     (let service = strings_ReplaceAll s (CHR ''/'') (CHR ''-'');
          node = strings_ReplaceAll node_id (CHR ''/'') (CHR ''-'')
      in path_Join [prefixWithDomain domain, service, node])"

subsection \<open>The etcd client and the adapter's state\<close>

text \<open>
  The etcd client is a parameter: each request takes the state of the store behind the
  client and returns the response with the new state. \<open>client_Get key withPrefix\<close> is a
  serializable \<open>Get\<close>, of one key or of a prefix; \<open>client_Put key value lease\<close> attaches
  the lease when one is given; \<open>client_Watch\<close> opens a prefix watch with previous
  key-values. A time-out of the request context is one of the errors a request may return.
\<close>

record 'c clientv3 =
  client_Get :: "string \<Rightarrow> bool \<Rightarrow> 'c \<Rightarrow> (error + KeyValue list) \<times> 'c"
  client_KeepAliveOnce :: "int \<Rightarrow> 'c \<Rightarrow> error option \<times> 'c"
  client_Grant :: "int \<Rightarrow> 'c \<Rightarrow> (error + int) \<times> 'c"
  client_Put :: "string \<Rightarrow> string \<Rightarrow> int option \<Rightarrow> 'c \<Rightarrow> error option \<times> 'c"
  client_Delete :: "string \<Rightarrow> 'c \<Rightarrow> error option \<times> 'c"
  client_Watch :: "string \<Rightarrow> 'c \<Rightarrow> 'c"

text \<open>The requests sent to the store, in order: what the adapter did to it.\<close>

datatype request =
    GetReq string bool
  | KeepAliveOnceReq int
  | GrantReq int
  | PutReq string string "int option"
  | DeleteReq string
  | WatchReq string

text \<open>
  \<open>etcdRegistry\<close>: the store behind the client, and the two caches
  \<open>register map[string]register\<close> and \<open>leases map[string]leases\<close>, grouped by domain.
  \<open>requests\<close> records every request the adapter sends.
\<close>

record 'c etcdRegistry =
  client :: 'c
  register :: "string \<rightharpoonup> (string \<rightharpoonup> 64 word)"
  leases :: "string \<rightharpoonup> (string \<rightharpoonup> int)"
  requests :: "request list"

definition do_Get ::
  "'c clientv3 \<Rightarrow> string \<Rightarrow> bool \<Rightarrow> 'c etcdRegistry \<Rightarrow> (error + KeyValue list) \<times> 'c etcdRegistry" where
  "do_Get cl key withPrefix e =
     (case client_Get cl key withPrefix (client e) of
        (rsp, c) \<Rightarrow> (rsp, e\<lparr>client := c, requests := requests e @ [GetReq key withPrefix]\<rparr>))"

definition do_KeepAliveOnce ::
  "'c clientv3 \<Rightarrow> int \<Rightarrow> 'c etcdRegistry \<Rightarrow> error option \<times> 'c etcdRegistry" where
  "do_KeepAliveOnce cl leaseID e =
     (case client_KeepAliveOnce cl leaseID (client e) of
        (err, c) \<Rightarrow> (err, e\<lparr>client := c, requests := requests e @ [KeepAliveOnceReq leaseID]\<rparr>))"

definition do_Grant ::
  "'c clientv3 \<Rightarrow> int \<Rightarrow> 'c etcdRegistry \<Rightarrow> (error + int) \<times> 'c etcdRegistry" where
  "do_Grant cl ttl e =
     (case client_Grant cl ttl (client e) of
        (rsp, c) \<Rightarrow> (rsp, e\<lparr>client := c, requests := requests e @ [GrantReq ttl]\<rparr>))"

definition do_Put ::
  "'c clientv3 \<Rightarrow> string \<Rightarrow> string \<Rightarrow> int option \<Rightarrow> 'c etcdRegistry \<Rightarrow> error option \<times> 'c etcdRegistry" where
  "do_Put cl key val lease e =
     (case client_Put cl key val lease (client e) of
        (err, c) \<Rightarrow> (err, e\<lparr>client := c, requests := requests e @ [PutReq key val lease]\<rparr>))"

definition do_Delete ::
  "'c clientv3 \<Rightarrow> string \<Rightarrow> 'c etcdRegistry \<Rightarrow> error option \<times> 'c etcdRegistry" where
  "do_Delete cl key e =
     (case client_Delete cl key (client e) of
        (err, c) \<Rightarrow> (err, e\<lparr>client := c, requests := requests e @ [DeleteReq key]\<rparr>))"

definition do_Watch :: "'c clientv3 \<Rightarrow> string \<Rightarrow> 'c etcdRegistry \<Rightarrow> 'c etcdRegistry" where
  "do_Watch cl path e =
     e\<lparr>client := client_Watch cl path (client e), requests := requests e @ [WatchReq path]\<rparr>"

text \<open>
  Reading \<open>m[domain][key]\<close>: a missing inner map reads as a missing entry. Writing
  \<open>m[domain][key] = v\<close> happens only after \<open>registerNode\<close> has made sure the inner map
  of the domain exists.
\<close>

definition cache_get :: "(string \<rightharpoonup> (string \<rightharpoonup> 'v)) \<Rightarrow> string \<Rightarrow> string \<Rightarrow> 'v option" where
  "cache_get m domain key = (case m domain of None \<Rightarrow> None | Some inner \<Rightarrow> inner key)"

definition cache_put ::
  "(string \<rightharpoonup> (string \<rightharpoonup> 'v)) \<Rightarrow> string \<Rightarrow> string \<Rightarrow> 'v \<Rightarrow> (string \<rightharpoonup> (string \<rightharpoonup> 'v))" where
  "cache_put m domain key v =
     m(domain \<mapsto> (case m domain of None \<Rightarrow> Map.empty | Some inner \<Rightarrow> inner)(key \<mapsto> v))"

definition ensure_domain :: "(string \<rightharpoonup> (string \<rightharpoonup> 'v)) \<Rightarrow> string \<Rightarrow> (string \<rightharpoonup> (string \<rightharpoonup> 'v))" where
  "ensure_domain m domain = (case m domain of None \<Rightarrow> m(domain \<mapsto> Map.empty) | Some inner \<Rightarrow> m)"


subsection \<open>registerNode\<close>

text \<open>
  The option functions \<open>opts ...registry.RegisterOption\<close> are applied to a zero
  \<open>RegisterOptions\<close>; the model takes the options they produce. \<open>TTL\<close> is a
  \<open>time.Duration\<close> in nanoseconds. \<open>options.TTL.Seconds() > 0\<close> holds exactly when the
  duration is positive, and \<open>int64(options.TTL.Seconds())\<close> is then its whole seconds
  as long as the duration is below \<open>2^24\<close> seconds, about 194 days. From there on the
  floating-point sum that \<open>Seconds()\<close> computes can round up to the next whole second;
  \<open>Seconds\<close> below does not follow that rounding. The value only travels to \<open>Grant\<close>.
\<close>

record RegisterOptions =
  TTL :: int
  Domain_r :: string

definition Seconds :: "int \<Rightarrow> int" where
  "Seconds d = d div 1000000000"

text \<open>
  Lines 203 to 227, the loop over the key-values of the node key when no lease is cached.
  A key-value with a lease sets \<open>leaseID\<close>; if its value decodes to a service with a node
  whose hash can be computed, lease and hash are cached and the loop ends (\<open>break\<close>),
  otherwise the loop goes on (\<open>continue\<close>) with \<open>leaseID\<close> already assigned.
\<close>

fun adoptLease ::
  "Lib \<Rightarrow> string \<Rightarrow> string \<Rightarrow> KeyValue list \<Rightarrow> int \<Rightarrow> 'c etcdRegistry \<Rightarrow> int \<times> 'c etcdRegistry" where
  "adoptLease lib domain key [] leaseID e = (leaseID, e)"
| "adoptLease lib domain key (kv # kvs) leaseID e =
     (if Lease kv > 0 then
        (let leaseID = Lease kv
         in case decode lib (Value kv) of
              None \<Rightarrow> adoptLease lib domain key kvs leaseID e
            | Some srv \<Rightarrow>
                (case Nodes srv of
                   [] \<Rightarrow> adoptLease lib domain key kvs leaseID e
                 | n0 # _ \<Rightarrow>
                     (case hash_Hash lib n0 of
                        Inl err \<Rightarrow> adoptLease lib domain key kvs leaseID e
                      | Inr h \<Rightarrow>
                          (leaseID,
                           e\<lparr>leases := cache_put (leases e) domain key leaseID,
                             register := cache_put (register e) domain key h\<rparr>))))
      else adoptLease lib domain key kvs leaseID e)"

text \<open>
  Lines 177 to 228: the inner maps of the domain are created when missing, the cached
  lease is read, and without one the node key is fetched to adopt a lease that is
  already in the store. Go reads a missing \<open>leaseID\<close> as 0.
\<close>

definition lookupLease ::
  "'c clientv3 \<Rightarrow> Lib \<Rightarrow> registry_Service \<Rightarrow> Node \<Rightarrow> string \<Rightarrow> 'c etcdRegistry
     \<Rightarrow> (error + int) \<times> 'c etcdRegistry" where
  "lookupLease cl lib s node domain e =
     (let e = e\<lparr>leases := ensure_domain (leases e) domain\<rparr>;
          e = e\<lparr>register := ensure_domain (register e) domain\<rparr>
      in case cache_get (leases e) domain (Name s @ Id_n node) of
           Some leaseID \<Rightarrow> (Inr leaseID, e)
         | None \<Rightarrow>
             (let key = nodePath domain (Name s) (Id_n node)
              in case do_Get cl key False e of
                   (Inl err, e') \<Rightarrow> (Inl err, e')
                 | (Inr kvs, e') \<Rightarrow>
                     (case adoptLease lib domain (Name s @ Id_n node) kvs 0 e' of
                        (leaseID, e'') \<Rightarrow> (Inr leaseID, e''))))"

text \<open>
  Lines 230 to 250: a known lease is renewed once. The result is \<open>leaseNotFound\<close>; an
  error other than \<open>ErrLeaseNotFound\<close> is returned to the caller.
\<close>

definition renewLease ::
  "'c clientv3 \<Rightarrow> int \<Rightarrow> 'c etcdRegistry \<Rightarrow> (error + bool) \<times> 'c etcdRegistry" where
  "renewLease cl leaseID e =
     (if leaseID > 0 then
        (case do_KeepAliveOnce cl leaseID e of
           (Some err, e') \<Rightarrow> if err \<noteq> ErrLeaseNotFound then (Inl err, e') else (Inr True, e')
         | (None, e') \<Rightarrow> (Inr False, e'))
      else (Inr False, e))"

text \<open>
  Lines 271 to 322: the write. A lease is granted only for a positive TTL; the
  single-node service is put under the node key; then the hash is cached, and the lease
  when one was granted.
\<close>

definition writeNode ::
  "'c clientv3 \<Rightarrow> Lib \<Rightarrow> registry_Service \<Rightarrow> Node \<Rightarrow> RegisterOptions \<Rightarrow> string \<Rightarrow> 64 word
     \<Rightarrow> 'c etcdRegistry \<Rightarrow> error option \<times> 'c etcdRegistry" where
  "writeNode cl lib s node options domain h e =
     (let s = s\<lparr>Metadata_s := (Metadata_s s)(''domain'' \<mapsto> domain)\<rparr>;
          service = \<lparr>Name = Name s, Version_s = Version_s s, Metadata_s = Metadata_s s,
                     Endpoints = Endpoints s, Nodes = [node]\<rparr>
      in case (if TTL options > 0
               then (case do_Grant cl (Seconds (TTL options)) e of
                       (Inl err, e') \<Rightarrow> (Inl err, e')
                     | (Inr lgr_ID, e') \<Rightarrow> (Inr (Some lgr_ID), e'))
               else (Inr None, e)) of
           (Inl err, e') \<Rightarrow> (Some err, e')
         | (Inr lgr, e') \<Rightarrow>
             (let key = nodePath domain (Name s) (Id_n node)
              in case do_Put cl key (encode lib service) lgr e' of
                   (Some err, e'') \<Rightarrow> (Some err, e'')
                 | (None, e'') \<Rightarrow>
                     (None,
                      e''\<lparr>register := cache_put (register e'') domain (Name s @ Id_n node) h,
                          leases := (case lgr of
                                       None \<Rightarrow> leases e''
                                     | Some lgr_ID \<Rightarrow>
                                         cache_put (leases e'') domain (Name s @ Id_n node) lgr_ID)\<rparr>)))"

text \<open>
  \<open>registerNode\<close> as a whole. \<open>s.Metadata["domain"]\<close> is set on the caller's service
  before anything else; setting it again gives the same service, so the model does not
  hand the service back.
  \<^verbatim>\<open>// the service is unchanged, skip registering
  if ok && v == h && !leaseNotFound { return nil }\<close>
\<close>

definition registerNode ::
  "'c clientv3 \<Rightarrow> Lib \<Rightarrow> registry_Service \<Rightarrow> Node \<Rightarrow> RegisterOptions \<Rightarrow> 'c etcdRegistry
     \<Rightarrow> error option \<times> 'c etcdRegistry" where
  "registerNode cl lib s node options e =
     (if length (Nodes s) = 0 then (Some (errors_New ''Require at least one node''), e)
      else
        let domain = (if length (Domain_r options) = 0 then defaultDomain else Domain_r options);
            s = s\<lparr>Metadata_s := (Metadata_s s)(''domain'' \<mapsto> domain)\<rparr>
        in case lookupLease cl lib s node domain e of
             (Inl err, e1) \<Rightarrow> (Some err, e1)
           | (Inr leaseID, e1) \<Rightarrow>
               (case renewLease cl leaseID e1 of
                  (Inl err, e2) \<Rightarrow> (Some err, e2)
                | (Inr leaseNotFound, e2) \<Rightarrow>
                    (case hash_Hash lib node of
                       Inl err \<Rightarrow> (Some err, e2)
                     | Inr h \<Rightarrow>
                         (let v = cache_get (register e2) domain (Name s @ Id_n node)
                          in if v = Some h \<and> \<not> leaseNotFound then (None, e2)
                             else writeNode cl lib s node options domain h e2))))"

subsection \<open>Register and Deregister\<close>

text \<open>
  \<^verbatim>\<open>var gerr error
  for _, node := range s.Nodes {
      if err := e.registerNode(s, node, opts...); err != nil { gerr = err }
  }
  return gerr\<close>
\<close>

fun Register_loop ::
  "'c clientv3 \<Rightarrow> Lib \<Rightarrow> registry_Service \<Rightarrow> RegisterOptions \<Rightarrow> Node list \<Rightarrow> error option
     \<Rightarrow> 'c etcdRegistry \<Rightarrow> error option \<times> 'c etcdRegistry" where
  "Register_loop cl lib s options [] gerr e = (gerr, e)"
| "Register_loop cl lib s options (node # nodes) gerr e =
     (case registerNode cl lib s node options e of
        (Some err, e') \<Rightarrow> Register_loop cl lib s options nodes (Some err) e'
      | (None, e') \<Rightarrow> Register_loop cl lib s options nodes gerr e')"

definition Register ::
  "'c clientv3 \<Rightarrow> Lib \<Rightarrow> registry_Service \<Rightarrow> RegisterOptions \<Rightarrow> 'c etcdRegistry
     \<Rightarrow> error option \<times> 'c etcdRegistry" where
  "Register cl lib s options e =
     (if length (Nodes s) = 0 then (Some (errors_New ''Require at least one node''), e)
      else Register_loop cl lib s options (Nodes s) None e)"

record DeregisterOptions =
  Domain_d :: string

text \<open>
  The loop of \<open>Deregister\<close>.
  \<^verbatim>\<open>// delete our hash of the service
  delete(e.register, s.Name+node.Id)
  // delete our lease of the service
  delete(e.leases, s.Name+node.Id)\<close>
  Both deletions act on the outer maps, whose keys are domains; then the node key is
  deleted from the store, and an error of that request ends the loop.
\<close>

fun Deregister_loop ::
  "'c clientv3 \<Rightarrow> registry_Service \<Rightarrow> string \<Rightarrow> Node list \<Rightarrow> 'c etcdRegistry
     \<Rightarrow> error option \<times> 'c etcdRegistry" where
  "Deregister_loop cl s domain [] e = (None, e)"
| "Deregister_loop cl s domain (node # nodes) e =
     (let e = e\<lparr>register := (register e)(Name s @ Id_n node := None)\<rparr>;
          e = e\<lparr>leases := (leases e)(Name s @ Id_n node := None)\<rparr>
      in case do_Delete cl (nodePath domain (Name s) (Id_n node)) e of
           (Some err, e') \<Rightarrow> (Some err, e')
         | (None, e') \<Rightarrow> Deregister_loop cl s domain nodes e')"

definition Deregister ::
  "'c clientv3 \<Rightarrow> registry_Service \<Rightarrow> DeregisterOptions \<Rightarrow> 'c etcdRegistry
     \<Rightarrow> error option \<times> 'c etcdRegistry" where
  "Deregister cl s options e =
     (if length (Nodes s) = 0 then (Some (errors_New ''Require at least one node''), e)
      else
        let domain = (if length (Domain_d options) = 0 then defaultDomain else Domain_d options)
        in Deregister_loop cl s domain (Nodes s) e)"

subsection \<open>GetService\<close>

record GetOptions =
  Domain_g :: string

text \<open>
  Lines 419 to 441. \<open>versions\<close> is Go's \<open>map[string]*registry.Service\<close>, kept as an
  association list with one entry per key. The entry is looked up under the directory of
  the key-value's key, and a new service is stored under its version:
  \<^verbatim>\<open>key, _ := path.Split(string(n.Key))
  if sn := decode(n.Value); sn != nil {
      s, ok := versions[key]
      if !ok {
          s = &registry.Service{Name: sn.Name, Version: sn.Version, Metadata: sn.Metadata, Endpoints: sn.Endpoints}
          versions[s.Version] = s
      }
      s.Nodes = append(s.Nodes, sn.Nodes...)
  }\<close>
  A service sits in the map under its own version only, so appending through the pointer
  \<open>s\<close> changes that one entry.
\<close>

fun GetService_loop ::
  "Lib \<Rightarrow> KeyValue list \<Rightarrow> (string \<times> registry_Service) list \<Rightarrow> (string \<times> registry_Service) list" where
  "GetService_loop lib [] versions = versions"
| "GetService_loop lib (n # results) versions =
     (case path_Split (Key n) of
        (key, _) \<Rightarrow>
          (case decode lib (Value n) of
             None \<Rightarrow> GetService_loop lib results versions
           | Some sn \<Rightarrow>
               (case map_of versions key of
                  None \<Rightarrow>
                    (let s = \<lparr>Name = Name sn, Version_s = Version_s sn, Metadata_s = Metadata_s sn,
                              Endpoints = Endpoints sn, Nodes = []\<rparr>;
                         s = s\<lparr>Nodes := Nodes s @ Nodes sn\<rparr>
                     in GetService_loop lib results (AList.update (Version_s s) s versions))
                | Some s \<Rightarrow>
                    (let s = s\<lparr>Nodes := Nodes s @ Nodes sn\<rparr>
                     in GetService_loop lib results (AList.update key s versions)))))"

text \<open>
  \<open>GetService\<close>: the wildcard domain scans the whole prefix and keeps the keys that
  contain \<open>/name/\<close>; any other domain scans the service's own directory. The services
  are returned in the order of \<open>versions\<close> (Go ranges over the map in no fixed order).
\<close>

definition GetService ::
  "'c clientv3 \<Rightarrow> Lib \<Rightarrow> string \<Rightarrow> GetOptions \<Rightarrow> 'c etcdRegistry
     \<Rightarrow> (error + registry_Service list) \<times> 'c etcdRegistry" where
  "GetService cl lib name options e =
     (let domain = (if length (Domain_g options) = 0 then defaultDomain else Domain_g options)
      in case (if domain = WildcardDomain then
                 (case do_Get cl prefix True e of
                    (Inl err, e') \<Rightarrow> (Inl err, e')
                  | (Inr kvs, e') \<Rightarrow>
                      (let keyPath = ''/'' @ serializeServiceName name @ ''/''
                       in (Inr (filter (\<lambda>kv. strings_Contains (Key kv) keyPath) kvs), e')))
               else
                 (let prefix = servicePath domain name @ ''/''
                  in do_Get cl prefix True e)) of
           (Inl err, e') \<Rightarrow> (Inl err, e')
         | (Inr results, e') \<Rightarrow>
             if length results = 0 then (Inl ErrNotFound, e')
             else (Inr (map snd (GetService_loop lib results [])), e'))"

subsection \<open>newEtcdWatcher\<close>

record WatchOptions =
  Domain_w :: string
  Service_w :: string

text \<open>
  An \<open>etcdWatcher\<close> holds the watch channel and the time-out; the channel is known by the
  prefix it watches. \<open>r.client.Watch\<close> is called in the \<open>return\<close> statement only, after
  the check of the options.
\<close>

record etcdWatcher =
  w :: string
  timeout :: int

definition newEtcdWatcher ::
  "'c clientv3 \<Rightarrow> int \<Rightarrow> WatchOptions \<Rightarrow> 'c etcdRegistry \<Rightarrow> (error + etcdWatcher) \<times> 'c etcdRegistry" where
  "newEtcdWatcher cl tmo wo r =
     (let wo = (if length (Domain_w wo) = 0 then wo\<lparr>Domain_w := defaultDomain\<rparr> else wo)
      in if Domain_w wo = WildcardDomain then
           (if length (Service_w wo) > 0
            then (Inl (errors_New ''Cannot watch a service accross domains''), r)
            else (Inr \<lparr>w = prefix, timeout = tmo\<rparr>, do_Watch cl prefix r))
         else if length (Service_w wo) > 0 then
           (let watchPath = servicePath (Domain_w wo) (Service_w wo) @ ''/''
            in (Inr \<lparr>w = watchPath, timeout = tmo\<rparr>, do_Watch cl watchPath r))
         else (Inr \<lparr>w = prefix, timeout = tmo\<rparr>, do_Watch cl prefix r))"


section \<open>A store and a codec to run the adapter on\<close>

text \<open>
  To run the adapter on concrete inputs the parameters need values. \<open>mem_client\<close> is a
  store in memory that answers as an etcd server without failures does: the key-values
  are kept in the order of their keys (bytewise, as etcd orders them), \<open>Get\<close> returns
  those of the key or prefix in that order, \<open>Put\<close> replaces the value of a key,
  \<open>Delete\<close> removes it, \<open>Grant\<close> hands out the next lease, and \<open>KeepAliveOnce\<close>
  reports \<open>ErrLeaseNotFound\<close> for a lease that was never granted. The general theorems
  below do not use it: they hold for every client.
\<close>

record mem_etcd =
  kv_store :: "KeyValue list"
  granted :: "int list"
  next_lease :: int

definition mem_Get :: "string \<Rightarrow> bool \<Rightarrow> mem_etcd \<Rightarrow> (error + KeyValue list) \<times> mem_etcd" where
  "mem_Get key withPrefix c =
     (Inr (filter (\<lambda>kv. if withPrefix then strings_HasPrefix (Key kv) key else Key kv = key) (kv_store c)), c)"

definition mem_KeepAliveOnce :: "int \<Rightarrow> mem_etcd \<Rightarrow> error option \<times> mem_etcd" where
  "mem_KeepAliveOnce leaseID c =
     (if leaseID \<in> set (granted c) then (None, c) else (Some ErrLeaseNotFound, c))"

definition mem_Grant :: "int \<Rightarrow> mem_etcd \<Rightarrow> (error + int) \<times> mem_etcd" where
  "mem_Grant ttl c =
     (Inr (next_lease c), c\<lparr>granted := granted c @ [next_lease c], next_lease := next_lease c + 1\<rparr>)"

fun key_less :: "string \<Rightarrow> string \<Rightarrow> bool" where
  "key_less [] [] = False"
| "key_less [] (d # ds) = True"
| "key_less (c # cs) [] = False"
| "key_less (c # cs) (d # ds) =
     ((of_char c :: nat) < of_char d \<or> (c = d \<and> key_less cs ds))"

fun insert_kv :: "KeyValue \<Rightarrow> KeyValue list \<Rightarrow> KeyValue list" where
  "insert_kv kv [] = [kv]"
| "insert_kv kv (x # xs) =
     (if Key x = Key kv then kv # xs
      else if key_less (Key kv) (Key x) then kv # x # xs
      else x # insert_kv kv xs)"

definition mem_Put :: "string \<Rightarrow> string \<Rightarrow> int option \<Rightarrow> mem_etcd \<Rightarrow> error option \<times> mem_etcd" where
  "mem_Put key val lease c =
     (None, c\<lparr>kv_store :=
                 insert_kv \<lparr>Key = key, Value = val, Lease = (case lease of None \<Rightarrow> 0 | Some l \<Rightarrow> l)\<rparr>
                   (kv_store c)\<rparr>)"

definition mem_Delete :: "string \<Rightarrow> mem_etcd \<Rightarrow> error option \<times> mem_etcd" where
  "mem_Delete key c = (None, c\<lparr>kv_store := filter (\<lambda>kv. Key kv \<noteq> key) (kv_store c)\<rparr>)"

definition mem_client :: "mem_etcd clientv3" where
  "mem_client =
     \<lparr>client_Get = mem_Get, client_KeepAliveOnce = mem_KeepAliveOnce, client_Grant = mem_Grant,
      client_Put = mem_Put, client_Delete = mem_Delete, client_Watch = (\<lambda>path c. c)\<rparr>"

definition mem_empty :: mem_etcd where
  "mem_empty = \<lparr>kv_store = [], granted = [], next_lease = 1\<rparr>"

definition etcd_init :: "'c \<Rightarrow> 'c etcdRegistry" where
  "etcd_init c = \<lparr>client = c, register = Map.empty, leases = Map.empty, requests = []\<rparr>"

text \<open>
  \<open>line_lib\<close> stands in for JSON and for the structural hash: a service is written as
  \<open>name|version|id@address;id@address;\<close> and read back from that line (metadata and
  endpoints are not written); the hash of a node is the FNV-1 hash of \<open>id@address\<close>.
\<close>

definition line_Marshal :: "registry_Service \<Rightarrow> string" where
  "line_Marshal s =
     Name s @ ''|'' @ Version_s s @ ''|''
       @ concat (map (\<lambda>n. Id_n n @ ''@'' @ Address_n n @ '';'') (Nodes s))"

definition line_node :: "string \<Rightarrow> Node" where
  "line_node x =
     (case split_on (CHR ''@'') x of
        [i, a] \<Rightarrow> \<lparr>Id_n = i, Address_n = a, Metadata_n = Map.empty\<rparr>
      | _ \<Rightarrow> \<lparr>Id_n = x, Address_n = [], Metadata_n = Map.empty\<rparr>)"

definition line_Unmarshal :: "string \<Rightarrow> registry_Service option" where
  "line_Unmarshal v =
     (case split_on (CHR ''|'') v of
        [name, version, nodes] \<Rightarrow>
          Some \<lparr>Name = name, Version_s = version, Metadata_s = Map.empty, Endpoints = [],
                Nodes = map line_node (butlast (split_on (CHR '';'') nodes))\<rparr>
      | _ \<Rightarrow> None)"

definition line_lib :: Lib where
  "line_lib =
     \<lparr>json_Marshal = line_Marshal, json_Unmarshal = line_Unmarshal,
      hash_Hash = (\<lambda>n. Inr (Write offset64 (Id_n n @ ''@'' @ Address_n n)))\<rparr>"

section \<open>The words of the claims, as definitions to compare with\<close>

text \<open>
  Section 4.4 on \<open>Process\<close>: every event that did not originate at this router is applied
  to the table, in order, and the first error that is not tolerated ends the processing and
  is returned. \<open>apply_events\<close> does that for a list of events, with no event skipped.
\<close>

fun apply_events :: "'t Table \<Rightarrow> Event list \<Rightarrow> 't \<Rightarrow> error option \<times> 't" where
  "apply_events tb [] t = (None, t)"
| "apply_events tb (event # events) t =
     (case manageRoute tb (Route event) (EventType_String (Type event)) t of
        (Some err, t') \<Rightarrow>
          (Some (fmt_Errorf ''failed applying action %s to routing table: %s''
             [ArgString (EventType_String (Type event)), ArgError err]), t')
      | (None, t') \<Rightarrow> apply_events tb events t')"

text \<open>
  The claim on \<open>Register\<close> speaks of the attempt made for each node.
  \<open>registerNode_outcomes\<close> runs \<open>registerNode\<close> on every node of a list in turn, each on
  the state the one before left, whether that one failed or not, and lists what each
  returned; \<open>registerNode_all\<close> is the state after the last one.
\<close>

fun registerNode_outcomes ::
  "'c clientv3 \<Rightarrow> Lib \<Rightarrow> registry_Service \<Rightarrow> RegisterOptions \<Rightarrow> Node list \<Rightarrow> 'c etcdRegistry
     \<Rightarrow> error option list" where
  "registerNode_outcomes cl lib s options [] e = []"
| "registerNode_outcomes cl lib s options (node # nodes) e =
     fst (registerNode cl lib s node options e)
       # registerNode_outcomes cl lib s options nodes (snd (registerNode cl lib s node options e))"

definition registerNode_all ::
  "'c clientv3 \<Rightarrow> Lib \<Rightarrow> registry_Service \<Rightarrow> RegisterOptions \<Rightarrow> Node list \<Rightarrow> 'c etcdRegistry
     \<Rightarrow> 'c etcdRegistry" where
  "registerNode_all cl lib s options nodes e =
     foldl (\<lambda>e node. snd (registerNode cl lib s node options e)) e nodes"

text \<open>
  The claim on \<open>registerNode\<close> speaks of the writes a call performs. A write is a
  \<open>Grant\<close> or a \<open>Put\<close>; \<open>new_requests e e'\<close> are the requests sent between the states
  \<open>e\<close> and \<open>e'\<close>.
\<close>

fun is_write :: "request \<Rightarrow> bool" where
  "is_write (GrantReq ttl) = True"
| "is_write (PutReq key val lease) = True"
| "is_write (GetReq key withPrefix) = False"
| "is_write (KeepAliveOnceReq leaseID) = False"
| "is_write (DeleteReq key) = False"
| "is_write (WatchReq path) = False"

definition new_requests :: "'c etcdRegistry \<Rightarrow> 'c etcdRegistry \<Rightarrow> request list" where
  "new_requests e e' = drop (length (requests e)) (requests e')"

section \<open>Concrete inputs\<close>

definition route_greeter :: Route where
  "route_greeter =
     \<lparr>Service = ''greeter'', Version = ''1.0'', Address = ''10.0.0.1:80'', Gateway = [],
      Network = ''inf'', Router = ''R2'', Link = ''local'', Metric = 1, Metadata = Map.empty\<rparr>"

text \<open>Two pairs of routes whose identity fields differ and concatenate to the same bytes:
  the first pair differs in service and version, the second, within one service, in
  version and address.\<close>

definition route_ab_c :: Route where
  "route_ab_c = route_greeter\<lparr>Service := ''ab'', Version := ''c''\<rparr>"

definition route_a_bc :: Route where
  "route_a_bc = route_greeter\<lparr>Service := ''a'', Version := ''bc''\<rparr>"

definition route_v1_0 :: Route where
  "route_v1_0 = route_greeter\<lparr>Version := ''v1'', Address := ''0.0.0.0:80''\<rparr>"

definition route_v_10 :: Route where
  "route_v_10 = route_greeter\<lparr>Version := ''v'', Address := ''10.0.0.0:80''\<rparr>"

text \<open>Router \<open>R1\<close>, an advert of its peer \<open>R2\<close> that carries one route of each origin, and
  an advert that carries routes of \<open>R1\<close> only.\<close>

definition options_R1 :: Options where
  "options_R1 =
     \<lparr>Id_o = ''R1'', Gateway_o = [], Network_o = ''inf'', Advertise = AdvertiseAll, Prewarm = False\<rparr>"

definition event_own :: Event where
  "event_own = \<lparr>Type = Create, Timestamp = 20, Route = route_greeter\<lparr>Router := ''R1''\<rparr>\<rparr>"

definition event_peer :: Event where
  "event_peer = \<lparr>Type = Create, Timestamp = 10, Route = route_greeter\<rparr>"

definition advert_mixed :: Advert where
  "advert_mixed =
     \<lparr>Id_a = ''R2'', Type_a = RouteUpdate, TTL_a = 120000000000, Timestamp_a = 30,
      Events = [event_own, event_peer]\<rparr>"

definition advert_own :: Advert where
  "advert_own =
     \<lparr>Id_a = ''R2'', Type_a = RouteUpdate, TTL_a = 120000000000, Timestamp_a = 30,
      Events = [event_own, event_own\<lparr>Type := Delete, Timestamp := 25\<rparr>]\<rparr>"

text \<open>An advert of \<open>R2\<close> whose two events, the creation and the deletion of one route,
  carry the same timestamp; and a sort that returns events with equal timestamps in the
  reverse of the order they had, which \<open>sort.Slice\<close> may do.\<close>

definition advert_tied :: Advert where
  "advert_tied =
     \<lparr>Id_a = ''R2'', Type_a = RouteUpdate, TTL_a = 120000000000, Timestamp_a = 30,
      Events = [event_peer, event_peer\<lparr>Type := Delete\<rparr>]\<rparr>"

definition ties_reversed :: "Event list \<Rightarrow> Event list" where
  "ties_reversed es = rev (sort_key (\<lambda>event. - Timestamp event) es)"

text \<open>A service with two nodes, the same service with no node, and the options of a
  registration for 30 seconds in the default domain.\<close>

definition node_n1 :: Node where
  "node_n1 = \<lparr>Id_n = ''n1'', Address_n = ''10.0.0.1:80'', Metadata_n = Map.empty\<rparr>"

definition node_n2 :: Node where
  "node_n2 = \<lparr>Id_n = ''n2'', Address_n = ''10.0.0.2:80'', Metadata_n = Map.empty\<rparr>"

definition service_svc :: registry_Service where
  "service_svc =
     \<lparr>Name = ''svc'', Version_s = ''1.0'', Metadata_s = Map.empty, Endpoints = [],
      Nodes = [node_n1, node_n2]\<rparr>"

definition service_no_nodes :: registry_Service where
  "service_no_nodes = service_svc\<lparr>Nodes := []\<rparr>"

definition register_30s :: RegisterOptions where
  "register_30s = \<lparr>TTL = 30000000000, Domain_r = []\<rparr>"

text \<open>A library whose structural hash fails on node \<open>n1\<close>, so that its registration
  fails while that of \<open>n2\<close> succeeds.\<close>

definition lib_n1_unhashable :: Lib where
  "lib_n1_unhashable =
     line_lib\<lparr>hash_Hash := (\<lambda>n. if Id_n n = ''n1'' then Inl (errors_New ''unhashable'')
                              else hash_Hash line_lib n)\<rparr>"

text \<open>Router \<open>R2\<close>, which advertises every route, and two table events for the same
  route, a creation and the deletion that follows it.\<close>

definition options_R2 :: Options where
  "options_R2 = options_R1\<lparr>Id_o := ''R2''\<rparr>"

definition event_create :: Event where
  "event_create = \<lparr>Type = Create, Timestamp = 100, Route = route_greeter\<rparr>"

definition event_delete :: Event where
  "event_delete = \<lparr>Type = Delete, Timestamp = 101, Route = route_greeter\<rparr>"

text \<open>What is compared of a returned service: name, version, and the identifier and
  address of each node.\<close>

definition service_summary :: "registry_Service \<Rightarrow> string \<times> string \<times> (string \<times> string) list" where
  "service_summary s = (Name s, Version_s s, map (\<lambda>n. (Id_n n, Address_n n)) (Nodes s))"

text \<open>The adapter after the registration of both nodes of \<open>svc\<close> in the default domain
  \<open>inf\<close>, and after the registration of node \<open>n1\<close> in \<open>inf\<close> and of node \<open>n2\<close> in
  the domain \<open>dev\<close>.\<close>

definition registered_svc :: "mem_etcd etcdRegistry" where
  "registered_svc = snd (Register mem_client line_lib service_svc register_30s (etcd_init mem_empty))"

definition registered_two_domains :: "mem_etcd etcdRegistry" where
  "registered_two_domains =
     snd (Register mem_client line_lib (service_svc\<lparr>Nodes := [node_n2]\<rparr>)
            (register_30s\<lparr>Domain_r := ''dev''\<rparr>)
       (snd (Register mem_client line_lib (service_svc\<lparr>Nodes := [node_n1]\<rparr>) register_30s
               (etcd_init mem_empty))))"

text \<open>The adapter after node \<open>n1\<close> of \<open>svc\<close> was registered and then deregistered, both
  in the default domain.\<close>

definition service_n1 :: registry_Service where
  "service_n1 = service_svc\<lparr>Nodes := [node_n1]\<rparr>"

definition registered_n1 :: "mem_etcd etcdRegistry" where
  "registered_n1 = snd (Register mem_client line_lib service_n1 register_30s (etcd_init mem_empty))"

definition deregistered_n1 :: "mem_etcd etcdRegistry" where
  "deregistered_n1 = snd (Deregister mem_client service_n1 \<lparr>Domain_d = []\<rparr> registered_n1)"

text \<open>The store that holds node \<open>n1\<close> of \<open>svc\<close> under lease 1, and an adapter whose caches
  hold the lease and the hash of that node.\<close>

definition store_n1 :: mem_etcd where
  "store_n1 =
     \<lparr>kv_store = [\<lparr>Key = ''/platform/inf/svc/n1'', Value = ''svc|1.0|n1@10.0.0.1:80;'', Lease = 1\<rparr>],
      granted = [1], next_lease = 2\<rparr>"

definition cached_n1 :: "mem_etcd etcdRegistry" where
  "cached_n1 =
     \<lparr>client = store_n1,
      register = [''inf'' \<mapsto> [''svcn1'' \<mapsto> Write offset64 ''n1@10.0.0.1:80'']],
      leases = [''inf'' \<mapsto> [''svcn1'' \<mapsto> 1]],
      requests = []\<rparr>"

chapter \<open>Properties\<close>

section \<open>The route hash\<close>

lemma Write_foldl: "Write h data = foldl (\<lambda>h c. (h * prime64) XOR of_char c) h data"
  by (induction data arbitrary: h) simp_all

lemma Hash_fnv1: "Hash r = fnv1_64 (identity_bytes r)"
  by (simp add: Hash_def fnv1_64_def identity_bytes_def New64_def Reset_def Sum64_def Write_foldl)

text \<open>
  C2, as the code has it: for every route \<open>r\<close>, \<open>Hash r\<close> is the 64-bit FNV-1 hash
  (multiply by the prime, then xor the byte) of the concatenation of Service, Version,
  Address, Gateway, Network, Router and Link, in that order; Metric and Metadata do not
  enter, so routes that agree on the seven fields have the same hash.
\<close>

theorem Hash_is_fnv1_of_identity_fields:
  "Hash r = fnv1_64 (Service r @ Version r @ Address r @ Gateway r @ Network r @ Router r @ Link r)
   \<and> (\<forall>r'. Service r' = Service r \<and> Version r' = Version r \<and> Address r' = Address r
          \<and> Gateway r' = Gateway r \<and> Network r' = Network r \<and> Router r' = Router r
          \<and> Link r' = Link r \<longrightarrow> Hash r' = Hash r)"
  by (simp add: Hash_fnv1 identity_bytes_def)

theorem Hash_is_fnv1_of_identity_fields_witness:
  "Hash route_greeter = fnv1_64 ''greeter1.010.0.0.1:80infR2local''
   \<and> Hash (route_greeter\<lparr>Metric := 5, Metadata := [''region'' \<mapsto> ''eu'']\<rparr>) = Hash route_greeter"
  using Hash_is_fnv1_of_identity_fields [of route_greeter]
  by (simp add: route_greeter_def)

text \<open>
  C2 as stated fails: the hash of \<open>route_greeter\<close> is not the FNV-1a hash of its seven
  fields (\<open>Hash\<close> gives 3801896803101998696, FNV-1a gives 11141356238826241066).
\<close>

theorem Hash_is_not_fnv1a:
  "Hash route_greeter
     \<noteq> fnv1a_64 (Service route_greeter @ Version route_greeter @ Address route_greeter
          @ Gateway route_greeter @ Network route_greeter @ Router route_greeter
          @ Link route_greeter)"
  by code_simp

text \<open>
  C10 as stated fails at its own example: \<open>route_ab_c\<close> and \<open>route_a_bc\<close> have the same
  hash, and the table, which keeps routes by service and hash, creates the second beside
  the first and holds both: it does not treat them as the same route.
\<close>

theorem table_keeps_both_routes_of_the_example:
  "Hash route_ab_c = Hash route_a_bc
   \<and> table_Create spec_table route_a_bc (snd (table_Create spec_table route_ab_c []))
     = (None, [route_ab_c, route_a_bc])"
proof -
  have "identity_bytes route_ab_c = identity_bytes route_a_bc"
    by (simp add: identity_bytes_def route_ab_c_def route_a_bc_def)
  then have "Hash route_ab_c = Hash route_a_bc"
    by (simp add: Hash_fnv1)
  moreover
  have "table_Create spec_table route_a_bc (snd (table_Create spec_table route_ab_c []))
      = (None, [route_ab_c, route_a_bc])"
    by (simp add: spec_table_def spec_Create_def same_route_def route_ab_c_def route_a_bc_def)
  ultimately show ?thesis by simp
qed

text \<open>
  C10, amended: \<open>Hash\<close> is the FNV-1 hash of the seven identity fields concatenated with
  no separator, so distinct routes that differ in those fields can have the same bytes
  and the same hash: \<open>route_ab_c\<close> (service \<open>ab\<close>, version \<open>c\<close>) and \<open>route_a_bc\<close>
  (service \<open>a\<close>, version \<open>bc\<close>) agree on every other field and collide. The table keeps
  routes by service and hash: it holds both routes of that pair, and it treats two
  colliding routes as the same route when they belong to one service, as \<open>route_v1_0\<close>
  and \<open>route_v_10\<close> do, where creating the second fails with \<open>ErrDuplicateRoute\<close>.
\<close>

theorem Hash_collides_without_separators:
  "Hash r = fnv1_64 (Service r @ Version r @ Address r @ Gateway r @ Network r @ Router r @ Link r)
   \<and> route_ab_c \<noteq> route_a_bc
   \<and> Service route_ab_c = ''ab'' \<and> Version route_ab_c = ''c''
   \<and> Service route_a_bc = ''a'' \<and> Version route_a_bc = ''bc''
   \<and> Address route_ab_c = Address route_a_bc \<and> Gateway route_ab_c = Gateway route_a_bc
   \<and> Network route_ab_c = Network route_a_bc \<and> Router route_ab_c = Router route_a_bc
   \<and> Link route_ab_c = Link route_a_bc
   \<and> Metric route_ab_c = Metric route_a_bc \<and> Metadata route_ab_c = Metadata route_a_bc
   \<and> identity_bytes route_ab_c = identity_bytes route_a_bc
   \<and> Hash route_ab_c = Hash route_a_bc
   \<and> table_Create spec_table route_a_bc [route_ab_c] = (None, [route_ab_c, route_a_bc])
   \<and> route_v1_0 \<noteq> route_v_10 \<and> Service route_v1_0 = Service route_v_10
   \<and> Version route_v1_0 \<noteq> Version route_v_10 \<and> Address route_v1_0 \<noteq> Address route_v_10
   \<and> Hash route_v1_0 = Hash route_v_10
   \<and> table_Create spec_table route_v_10 [route_v1_0] = (Some ErrDuplicateRoute, [route_v1_0])"
proof -
  have fnv: "Hash r = fnv1_64 (Service r @ Version r @ Address r @ Gateway r @ Network r
      @ Router r @ Link r)"
    by (simp add: Hash_fnv1 identity_bytes_def)
  have ne: "route_ab_c \<noteq> route_a_bc"
  proof
    assume "route_ab_c = route_a_bc"
    then have "Service route_ab_c = Service route_a_bc" by simp
    then show False by (simp add: route_ab_c_def route_a_bc_def)
  qed
  have bytes: "identity_bytes route_ab_c = identity_bytes route_a_bc"
    by (simp add: identity_bytes_def route_ab_c_def route_a_bc_def)
  have hash: "Hash route_ab_c = Hash route_a_bc"
    using bytes by (simp add: Hash_fnv1)
  have both: "table_Create spec_table route_a_bc [route_ab_c] = (None, [route_ab_c, route_a_bc])"
    by (simp add: spec_table_def spec_Create_def same_route_def route_ab_c_def route_a_bc_def)
  have ne': "route_v1_0 \<noteq> route_v_10"
  proof
    assume "route_v1_0 = route_v_10"
    then have "Version route_v1_0 = Version route_v_10" by simp
    then show False by (simp add: route_v1_0_def route_v_10_def)
  qed
  have "identity_bytes route_v1_0 = identity_bytes route_v_10"
    by (simp add: identity_bytes_def route_v1_0_def route_v_10_def route_greeter_def)
  then have hash': "Hash route_v1_0 = Hash route_v_10"
    by (simp add: Hash_fnv1)
  have service: "Service route_v1_0 = Service route_v_10"
    by (simp add: route_v1_0_def route_v_10_def)
  have dup: "table_Create spec_table route_v_10 [route_v1_0] = (Some ErrDuplicateRoute, [route_v1_0])"
    using hash' service by (simp add: spec_table_def spec_Create_def same_route_def)
  from fnv ne bytes hash both ne' hash' dup show ?thesis
    by (simp add: route_ab_c_def route_a_bc_def route_v1_0_def route_v_10_def)
qed

section \<open>Process and the router's own routes\<close>

lemma Process_loop_apply_events:
  "Process_loop tb options events t =
     apply_events tb (filter (\<lambda>event. Router (Route event) \<noteq> Id_o options) events) t"
  by (induction events arbitrary: t) (auto simp: Let_def split: prod.splits option.splits)

lemma Process_loop_all_own:
  "\<forall>event \<in> set events. Router (Route event) = Id_o options \<Longrightarrow>
     Process_loop tb options events t = (None, t)"
  by (induction events) simp_all

text \<open>
  C4: when every event of an advert carries a route whose \<open>Router\<close> is the router's own
  \<open>Id\<close>, \<open>Process\<close> returns \<open>nil\<close> and leaves the table as it was, whatever the table's
  \<open>Create\<close>, \<open>Update\<close> and \<open>Delete\<close> do (so none of them is called) and in whatever
  order \<open>sort.Slice\<close> returns the events. In general \<open>Process\<close> applies the events in
  the order \<open>sort.Slice\<close> returned them, leaving out exactly those whose route
  originated at this router: the events applied are the advert's events of other
  origin, each as often as the advert has it, in an order sorted by timestamp.
\<close>

theorem Process_skips_own_routes:
  "sort_Slice_returns (Events a) (sort_Slice (Events a)) \<Longrightarrow>
     ((\<forall>event \<in> set (Events a). Router (Route event) = Id_o options)
        \<longrightarrow> Process tb options sort_Slice a t = (None, t))
     \<and> Process tb options sort_Slice a t =
         apply_events tb
           (filter (\<lambda>event. Router (Route event) \<noteq> Id_o options) (sort_Slice (Events a))) t
     \<and> mset (filter (\<lambda>event. Router (Route event) \<noteq> Id_o options) (sort_Slice (Events a)))
         = filter_mset (\<lambda>event. Router (Route event) \<noteq> Id_o options) (mset (Events a))
     \<and> sorted (map Timestamp
           (filter (\<lambda>event. Router (Route event) \<noteq> Id_o options) (sort_Slice (Events a))))"
proof -
  assume ret: "sort_Slice_returns (Events a) (sort_Slice (Events a))"
  then have perm: "mset (sort_Slice (Events a)) = mset (Events a)"
    and srt: "sorted (map Timestamp (sort_Slice (Events a)))"
    by (simp_all add: sort_Slice_returns_def)
  from perm have same: "set (sort_Slice (Events a)) = set (Events a)"
    by (rule mset_eq_setD)
  have own: "Process tb options sort_Slice a t = (None, t)"
    if "\<forall>event \<in> set (Events a). Router (Route event) = Id_o options"
  proof -
    from that same
    have "\<forall>event \<in> set (sort_Slice (Events a)). Router (Route event) = Id_o options"
      by simp
    then show ?thesis
      unfolding Process_def Let_def by (rule Process_loop_all_own)
  qed
  have applied: "Process tb options sort_Slice a t =
      apply_events tb
        (filter (\<lambda>event. Router (Route event) \<noteq> Id_o options) (sort_Slice (Events a))) t"
    by (simp add: Process_def Process_loop_apply_events)
  have which: "mset (filter (\<lambda>event. Router (Route event) \<noteq> Id_o options) (sort_Slice (Events a)))
      = filter_mset (\<lambda>event. Router (Route event) \<noteq> Id_o options) (mset (Events a))"
    using perm by simp
  have "sorted (map Timestamp
      (filter (\<lambda>event. Router (Route event) \<noteq> Id_o options) (sort_Slice (Events a))))"
    using srt by (rule sorted_filter)
  with own applied which show ?thesis
    by blast
qed

theorem Process_skips_own_routes_witness:
  "Process spec_table options_R1 (sort_key Timestamp) advert_own [route_greeter]
     = (None, [route_greeter])
   \<and> Process spec_table options_R1 (sort_key Timestamp) advert_mixed [] = (None, [route_greeter])
   \<and> Process spec_table options_R1 (sort_key Timestamp) advert_tied [] = (None, [])
   \<and> Process spec_table options_R1 ties_reversed advert_tied [] = (None, [route_greeter])"
proof -
  have ret_own: "sort_Slice_returns (Events advert_own) (sort_key Timestamp (Events advert_own))"
    by (simp add: sort_Slice_returns_def)
  have ret_mixed: "sort_Slice_returns (Events advert_mixed) (sort_key Timestamp (Events advert_mixed))"
    by (simp add: sort_Slice_returns_def)
  have ret_tied: "sort_Slice_returns (Events advert_tied) (sort_key Timestamp (Events advert_tied))"
    by (simp add: sort_Slice_returns_def)
  have ret_rev: "sort_Slice_returns (Events advert_tied) (ties_reversed (Events advert_tied))"
    by (simp add: sort_Slice_returns_def ties_reversed_def advert_tied_def event_peer_def)
  have own: "\<forall>event \<in> set (Events advert_own). Router (Route event) = Id_o options_R1"
    by (simp add: advert_own_def event_own_def options_R1_def)
  have "Process spec_table options_R1 (sort_key Timestamp) advert_own [route_greeter]
      = (None, [route_greeter])"
    using Process_skips_own_routes [where a = advert_own and sort_Slice = "sort_key Timestamp"
        and options = options_R1 and tb = spec_table and t = "[route_greeter]", OF ret_own] own
    by blast
  moreover
  have "Process spec_table options_R1 (sort_key Timestamp) advert_mixed [] = (None, [route_greeter])"
    using Process_skips_own_routes [where a = advert_mixed and sort_Slice = "sort_key Timestamp"
        and options = options_R1 and tb = spec_table and t = "[]", OF ret_mixed]
    by (simp add: advert_mixed_def event_own_def event_peer_def options_R1_def route_greeter_def
        manageRoute_def spec_table_def spec_Create_def)
  moreover
  have "Process spec_table options_R1 (sort_key Timestamp) advert_tied [] = (None, [])"
    using Process_skips_own_routes [where a = advert_tied and sort_Slice = "sort_key Timestamp"
        and options = options_R1 and tb = spec_table and t = "[]", OF ret_tied]
    by (simp add: advert_tied_def event_peer_def options_R1_def route_greeter_def
        manageRoute_def spec_table_def spec_Create_def spec_Delete_def same_route_def)
  moreover
  have "Process spec_table options_R1 ties_reversed advert_tied [] = (None, [route_greeter])"
    using Process_skips_own_routes [where a = advert_tied and sort_Slice = ties_reversed
        and options = options_R1 and tb = spec_table and t = "[]", OF ret_rev]
    by (simp add: ties_reversed_def advert_tied_def event_peer_def options_R1_def route_greeter_def
        manageRoute_def spec_table_def spec_Create_def spec_Delete_def same_route_def)
  ultimately show ?thesis by simp
qed

section \<open>Register and Deregister\<close>

text \<open>
  C8: for a service with an empty \<open>Nodes\<close> slice, \<open>Register\<close> and \<open>Deregister\<close> both
  return the error "Require at least one node" at once; the adapter's state (the store,
  the caches and the list of requests sent) is what it was.
\<close>

theorem Register_Deregister_need_a_node:
  "Nodes s = [] \<Longrightarrow>
     Register cl lib s ropts e = (Some (errors_New ''Require at least one node''), e)
     \<and> Deregister cl s dopts e = (Some (errors_New ''Require at least one node''), e)"
  by (simp add: Register_def Deregister_def)

theorem Register_Deregister_need_a_node_witness:
  "Register mem_client line_lib service_no_nodes register_30s (etcd_init mem_empty)
     = (Some (errors_New ''Require at least one node''), etcd_init mem_empty)
   \<and> Deregister mem_client service_no_nodes \<lparr>Domain_d = []\<rparr> (etcd_init mem_empty)
     = (Some (errors_New ''Require at least one node''), etcd_init mem_empty)"
proof -
  have "Nodes service_no_nodes = []"
    by (simp add: service_no_nodes_def)
  then show ?thesis
    by (rule Register_Deregister_need_a_node)
qed

lemma Register_loop_state:
  "snd (Register_loop cl lib s options nodes gerr e) = registerNode_all cl lib s options nodes e"
  unfolding registerNode_all_def
  by (induction nodes arbitrary: gerr e) (auto split: prod.splits option.splits)

lemma Register_loop_error:
  "fst (Register_loop cl lib s options nodes gerr e) =
     (case filter (\<lambda>out. out \<noteq> None) (registerNode_outcomes cl lib s options nodes e) of
        [] \<Rightarrow> gerr
      | fs \<Rightarrow> last fs)"
proof (induction nodes arbitrary: gerr e)
  case Nil
  show ?case by simp
next
  case (Cons node nodes)
  obtain err e' where step: "registerNode cl lib s node options e = (err, e')"
    by (cases "registerNode cl lib s node options e")
  show ?case
  proof (cases err)
    case None
    with step Cons.IH [of gerr e'] show ?thesis by simp
  next
    case (Some x)
    with step Cons.IH [of "Some x" e'] show ?thesis
      by (simp split: list.splits)
  qed
qed

lemma length_registerNode_outcomes:
  "length (registerNode_outcomes cl lib s options nodes e) = length nodes"
  by (induction nodes arbitrary: e) simp_all

text \<open>
  C9: \<open>Register\<close> on a service with nodes runs \<open>registerNode\<close> for every node, also
  after a failure: there is one outcome per node and the state returned is the state
  after the attempt for the last node. It returns \<open>nil\<close> exactly when every attempt
  returned \<open>nil\<close>, and otherwise the error of the last attempt that failed.
\<close>

theorem Register_tries_every_node:
  "Nodes s \<noteq> [] \<Longrightarrow>
     length (registerNode_outcomes cl lib s options (Nodes s) e) = length (Nodes s)
     \<and> snd (Register cl lib s options e) = registerNode_all cl lib s options (Nodes s) e
     \<and> fst (Register cl lib s options e) =
         (case filter (\<lambda>out. out \<noteq> None) (registerNode_outcomes cl lib s options (Nodes s) e) of
            [] \<Rightarrow> None
          | fs \<Rightarrow> last fs)
     \<and> (fst (Register cl lib s options e) = None
          \<longleftrightarrow> (\<forall>out \<in> set (registerNode_outcomes cl lib s options (Nodes s) e). out = None))"
proof -
  assume nodes: "Nodes s \<noteq> []"
  let ?outs = "registerNode_outcomes cl lib s options (Nodes s) e"
  have reg: "Register cl lib s options e = Register_loop cl lib s options (Nodes s) None e"
    using nodes by (simp add: Register_def)
  have err: "fst (Register cl lib s options e) =
      (case filter (\<lambda>out. out \<noteq> None) ?outs of [] \<Rightarrow> None | fs \<Rightarrow> last fs)"
    by (simp add: reg Register_loop_error)
  have iff: "fst (Register cl lib s options e) = None \<longleftrightarrow> (\<forall>out \<in> set ?outs. out = None)"
  proof (cases "filter (\<lambda>out. out \<noteq> None) ?outs")
    case Nil
    then have "\<forall>out \<in> set ?outs. out = None"
      by (simp add: filter_empty_conv)
    with Nil err show ?thesis by simp
  next
    case (Cons f fs)
    then have "last (f # fs) \<in> set (filter (\<lambda>out. out \<noteq> None) ?outs)"
      by (metis last_in_set list.distinct(1))
    then have "last (f # fs) \<noteq> None" and "last (f # fs) \<in> set ?outs"
      by simp_all
    with Cons err show ?thesis by auto
  qed
  show ?thesis
    using err iff by (simp add: length_registerNode_outcomes reg Register_loop_state)
qed


theorem Register_tries_every_node_witness:
  "fst (Register mem_client lib_n1_unhashable service_svc register_30s (etcd_init mem_empty))
     = Some (errors_New ''unhashable'')
   \<and> map Key (kv_store (client (snd (Register mem_client lib_n1_unhashable service_svc register_30s
         (etcd_init mem_empty))))) = [''/platform/inf/svc/n2'']"
proof -
  have nodes: "Nodes service_svc \<noteq> []"
    by (simp add: service_svc_def)
  have nodes_eq: "Nodes service_svc = [node_n1, node_n2]"
    by (simp add: service_svc_def)
  have outs: "registerNode_outcomes mem_client lib_n1_unhashable service_svc register_30s
      [node_n1, node_n2] (etcd_init mem_empty) = [Some (errors_New ''unhashable''), None]"
    by code_simp
  have keys: "map Key (kv_store (client (registerNode_all mem_client lib_n1_unhashable service_svc
      register_30s [node_n1, node_n2] (etcd_init mem_empty)))) = [''/platform/inf/svc/n2'']"
    by code_simp
  show ?thesis
    using Register_tries_every_node [OF nodes, of mem_client lib_n1_unhashable register_30s
        "etcd_init mem_empty"] outs keys
    by (simp add: nodes_eq)
qed

section \<open>newEtcdWatcher\<close>

text \<open>
  C7: a watcher for the wildcard domain \<open>"*"\<close> with a non-empty \<open>Service\<close> option is
  refused: \<open>newEtcdWatcher\<close> returns an error and no watcher, and no request reaches the
  store, so no watch is opened. For every other combination of the two options it
  returns a watcher, having opened exactly one watch, on the watcher's path.
\<close>

theorem newEtcdWatcher_refuses_wildcard_service:
  "(Domain_w wo = ''*'' \<and> Service_w wo \<noteq> [] \<longrightarrow>
      newEtcdWatcher cl tmo wo r = (Inl (errors_New ''Cannot watch a service accross domains''), r))
   \<and> (\<not> (Domain_w wo = ''*'' \<and> Service_w wo \<noteq> []) \<longrightarrow>
      (\<exists>watcher r'. newEtcdWatcher cl tmo wo r = (Inr watcher, r')
         \<and> requests r' = requests r @ [WatchReq (w watcher)]))"
  by (auto simp: newEtcdWatcher_def WildcardDomain_def defaultDomain_def do_Watch_def Let_def)

theorem newEtcdWatcher_refuses_wildcard_service_witness:
  "newEtcdWatcher mem_client 5000000000 \<lparr>Domain_w = ''*'', Service_w = ''greeter''\<rparr>
       (etcd_init mem_empty)
     = (Inl (errors_New ''Cannot watch a service accross domains''), etcd_init mem_empty)
   \<and> (\<exists>watcher r'.
        newEtcdWatcher mem_client 5000000000 \<lparr>Domain_w = ''inf'', Service_w = ''greeter''\<rparr>
          (etcd_init mem_empty) = (Inr watcher, r')
        \<and> requests r' = requests (etcd_init mem_empty) @ [WatchReq (w watcher)])
   \<and> fst (newEtcdWatcher mem_client 5000000000 \<lparr>Domain_w = ''inf'', Service_w = ''greeter''\<rparr>
          (etcd_init mem_empty)) = Inr \<lparr>w = ''/platform/inf/greeter/'', timeout = 5000000000\<rparr>"
proof -
  have "fst (newEtcdWatcher mem_client 5000000000 \<lparr>Domain_w = ''inf'', Service_w = ''greeter''\<rparr>
          (etcd_init mem_empty)) = Inr \<lparr>w = ''/platform/inf/greeter/'', timeout = 5000000000\<rparr>"
    by code_simp
  then show ?thesis
    using newEtcdWatcher_refuses_wildcard_service
        [of "\<lparr>Domain_w = ''*'', Service_w = ''greeter''\<rparr>" mem_client 5000000000
          "etcd_init mem_empty"]
      newEtcdWatcher_refuses_wildcard_service
        [of "\<lparr>Domain_w = ''inf'', Service_w = ''greeter''\<rparr>" mem_client 5000000000
          "etcd_init mem_empty"]
    by simp
qed

section \<open>The event coalescer\<close>

lemma on_event_keeps_pending_entry:
  "map_of (pending st) (Hash (Route e)) = Some ev \<Longrightarrow> on_event options (Some e) st = st"
  by (simp add: on_event_def Let_def)

text \<open>
  C1, on the code: a \<open>Create\<close> and then a \<open>Delete\<close> of the same route within one tick
  leave the \<open>Create\<close> event in the pending map, not the \<open>Delete\<close>, and the next tick
  emits that \<open>Create\<close> event; the pending map is empty after the tick.
\<close>

theorem advertiseEvents_Create_Delete_emits_Create:
  "advertiseEvents options_R2 [TableEvent (Some event_create), TableEvent (Some event_delete)]
       advertise_init
     = \<lparr>pending = [(Hash route_greeter, event_create)], published = []\<rparr>
   \<and> advertiseEvents options_R2
       [TableEvent (Some event_create), TableEvent (Some event_delete), Tick] advertise_init
     = \<lparr>pending = [], published = [(RouteUpdate, [event_create])]\<rparr>"
  by (simp add: on_event_def on_tick_def advertise_init_def options_R2_def options_R1_def
      event_create_def event_delete_def Let_def)

section \<open>GetService\<close>

text \<open>
  C3, on the code: with the two nodes of \<open>svc\<close> stored under the keys
  \<open>/platform/inf/svc/n1\<close> and \<open>/platform/inf/svc/n2\<close>, which share their directory,
  \<open>GetService\<close> returns one service that has node \<open>n2\<close> only; and with \<open>n1\<close> stored in
  the domain \<open>inf\<close> and \<open>n2\<close> in the domain \<open>dev\<close>, the wildcard query returns one
  service, not two: the one of the key that comes last in key order, with node \<open>n1\<close>.
\<close>

theorem GetService_keeps_last_node_per_version:
  "map Key (kv_store (client registered_svc)) = [''/platform/inf/svc/n1'', ''/platform/inf/svc/n2'']
   \<and> map_sum id (map service_summary)
        (fst (GetService mem_client line_lib ''svc'' \<lparr>Domain_g = ''inf''\<rparr> registered_svc))
     = Inr [(''svc'', ''1.0'', [(''n2'', ''10.0.0.2:80'')])]
   \<and> map Key (kv_store (client registered_two_domains))
     = [''/platform/dev/svc/n2'', ''/platform/inf/svc/n1'']
   \<and> map_sum id (map service_summary)
        (fst (GetService mem_client line_lib ''svc'' \<lparr>Domain_g = ''*''\<rparr> registered_two_domains))
     = Inr [(''svc'', ''1.0'', [(''n1'', ''10.0.0.1:80'')])]"
  by code_simp

section \<open>Deregister and the caches\<close>

text \<open>
  \<open>Deregister\<close> changes the outer cache maps at the keys \<open>s.Name+node.Id\<close> only:
  what is cached under any other outer key, such as the domain of the registration, stays.
\<close>

lemma do_Delete_caches:
  "do_Delete cl key e = (r, e') \<Longrightarrow> register e' = register e \<and> leases e' = leases e"
  by (auto simp: do_Delete_def split: prod.splits)

lemma Deregister_loop_keeps_domain_caches:
  "domain' \<notin> (\<lambda>node. Name s @ Id_n node) ` set nodes \<Longrightarrow>
     register (snd (Deregister_loop cl s domain nodes e)) domain' = register e domain'
     \<and> leases (snd (Deregister_loop cl s domain nodes e)) domain' = leases e domain'"
proof (induction nodes arbitrary: e)
  case Nil
  show ?case by simp
next
  case (Cons node nodes)
  let ?e0 = "e\<lparr>register := (register e)(Name s @ Id_n node := None),
                leases := (leases e)(Name s @ Id_n node := None)\<rparr>"
  obtain r e' where del: "do_Delete cl (nodePath domain (Name s) (Id_n node)) ?e0 = (r, e')"
    by (cases "do_Delete cl (nodePath domain (Name s) (Id_n node)) ?e0")
  from Cons.prems have ne: "domain' \<noteq> Name s @ Id_n node"
    and rest: "domain' \<notin> (\<lambda>node. Name s @ Id_n node) ` set nodes"
    by auto
  from do_Delete_caches [OF del] ne
  have same: "register e' domain' = register e domain'" "leases e' domain' = leases e domain'"
    by simp_all
  show ?case
  proof (cases r)
    case None
    with del Cons.IH [OF rest, of e'] same show ?thesis
      by (simp add: Let_def)
  next
    case (Some err)
    with del same show ?thesis
      by (simp add: Let_def)
  qed
qed

lemma Deregister_keeps_domain_caches:
  "domain' \<notin> (\<lambda>node. Name s @ Id_n node) ` set (Nodes s) \<Longrightarrow>
     cache_get (register (snd (Deregister cl s options e))) domain' key = cache_get (register e) domain' key
     \<and> cache_get (leases (snd (Deregister cl s options e))) domain' key = cache_get (leases e) domain' key"
  using Deregister_loop_keeps_domain_caches [of domain' s "Nodes s" cl _ e]
  by (simp add: Deregister_def cache_get_def Let_def)

text \<open>
  C6, on the code: after node \<open>n1\<close> of \<open>svc\<close> was registered in the domain \<open>inf\<close> and
  then deregistered, its key is gone from the store, and the hash and the lease that
  \<open>Register\<close> cached under \<open>inf\<close> for \<open>svcn1\<close> are still there. Registering the
  unchanged node again then renews the cached lease and returns \<open>nil\<close> without writing:
  the store stays empty.
\<close>

theorem Deregister_leaves_cache_entries:
  "cache_get (register registered_n1) ''inf'' ''svcn1'' = Some (Write offset64 ''n1@10.0.0.1:80'')
   \<and> cache_get (leases registered_n1) ''inf'' ''svcn1'' = Some 1
   \<and> fst (Deregister mem_client service_n1 \<lparr>Domain_d = []\<rparr> registered_n1) = None
   \<and> kv_store (client deregistered_n1) = []
   \<and> cache_get (register deregistered_n1) ''inf'' ''svcn1'' = Some (Write offset64 ''n1@10.0.0.1:80'')
   \<and> cache_get (leases deregistered_n1) ''inf'' ''svcn1'' = Some 1
   \<and> fst (Register mem_client line_lib service_n1 register_30s deregistered_n1) = None
   \<and> kv_store (client (snd (Register mem_client line_lib service_n1 register_30s deregistered_n1))) = []
   \<and> drop (length (requests deregistered_n1))
        (requests (snd (Register mem_client line_lib service_n1 register_30s deregistered_n1)))
      = [KeepAliveOnceReq 1]"
  by code_simp

section \<open>registerNode and the unchanged node\<close>

lemma adoptLease_reads_nothing:
  "adoptLease lib domain key kvs leaseID e = (leaseID', e') \<Longrightarrow>
     requests e' = requests e \<and> client e' = client e"
  by (induction kvs arbitrary: leaseID)
     (auto simp: Let_def split: if_splits option.splits list.splits sum.splits)

lemma lookupLease_Metadata:
  "lookupLease cl lib (s\<lparr>Metadata_s := m\<rparr>) node domain e = lookupLease cl lib s node domain e"
  by (simp add: lookupLease_def Let_def cong: option.case_cong prod.case_cong sum.case_cong)

lemma lookupLease_requests:
  assumes "lookupLease cl lib s node domain e = (r, e1)"
  shows "\<exists>qs. requests e1 = requests e @ qs \<and> \<not> list_ex is_write qs"
proof (cases "cache_get (ensure_domain (leases e) domain) domain (Name s @ Id_n node)")
  case (Some leaseID)
  with assms have "requests e1 = requests e"
    by (auto simp: lookupLease_def Let_def)
  then show ?thesis by simp
next
  case None
  let ?e0 = "e\<lparr>leases := ensure_domain (leases e) domain,
                register := ensure_domain (register e) domain\<rparr>"
  let ?key = "nodePath domain (Name s) (Id_n node)"
  obtain rsp e' where get: "do_Get cl ?key False ?e0 = (rsp, e')"
    by (cases "do_Get cl ?key False ?e0")
  then have req: "requests e' = requests e @ [GetReq ?key False]"
    by (auto simp: do_Get_def split: prod.splits)
  show ?thesis
  proof (cases rsp)
    case (Inl err)
    with assms None get have "e1 = e'"
      by (auto simp: lookupLease_def Let_def)
    with req show ?thesis by simp
  next
    case (Inr kvs)
    obtain l e'' where ad: "adoptLease lib domain (Name s @ Id_n node) kvs 0 e' = (l, e'')"
      by (cases "adoptLease lib domain (Name s @ Id_n node) kvs 0 e'")
    with assms None get Inr have "e1 = e''"
      by (auto simp: lookupLease_def Let_def)
    with adoptLease_reads_nothing [OF ad] req show ?thesis by simp
  qed
qed

lemma do_KeepAliveOnce_requests:
  "do_KeepAliveOnce cl leaseID e = (r, e') \<Longrightarrow>
     requests e' = requests e @ [KeepAliveOnceReq leaseID]"
  by (auto simp: do_KeepAliveOnce_def split: prod.splits)

lemma renewLease_requests:
  assumes "renewLease cl leaseID e = (r, e')"
  shows "\<exists>qs. requests e' = requests e @ qs \<and> \<not> list_ex is_write qs"
proof (cases "leaseID > 0")
  case True
  obtain err e2 where ka: "do_KeepAliveOnce cl leaseID e = (err, e2)"
    by (cases "do_KeepAliveOnce cl leaseID e")
  with assms True have "e' = e2"
    by (auto simp: renewLease_def split: option.splits if_splits)
  with do_KeepAliveOnce_requests [OF ka] show ?thesis by simp
next
  case False
  with assms show ?thesis by (simp add: renewLease_def)
qed

lemma renewLease_leaseNotFound:
  "renewLease cl leaseID e = (Inr leaseNotFound, e') \<Longrightarrow>
     leaseNotFound \<longleftrightarrow>
       leaseID > 0 \<and> fst (client_KeepAliveOnce cl leaseID (client e)) = Some ErrLeaseNotFound"
  by (auto simp: renewLease_def do_KeepAliveOnce_def split: prod.splits option.splits if_splits)

lemma registerNode_unfold:
  assumes "Nodes s \<noteq> []"
    and "domain = (if length (Domain_r options) = 0 then defaultDomain else Domain_r options)"
  shows "registerNode cl lib s node options e =
     (case lookupLease cl lib s node domain e of
        (Inl err, e1) \<Rightarrow> (Some err, e1)
      | (Inr leaseID, e1) \<Rightarrow>
          (case renewLease cl leaseID e1 of
             (Inl err, e2) \<Rightarrow> (Some err, e2)
           | (Inr leaseNotFound, e2) \<Rightarrow>
               (case hash_Hash lib node of
                  Inl err \<Rightarrow> (Some err, e2)
                | Inr h \<Rightarrow>
                    if cache_get (register e2) domain (Name s @ Id_n node) = Some h
                         \<and> \<not> leaseNotFound
                    then (None, e2)
                    else writeNode cl lib (s\<lparr>Metadata_s := (Metadata_s s)(''domain'' \<mapsto> domain)\<rparr>)
                           node options domain h e2)))"
  unfolding assms(2) using assms(1)
  by (simp add: registerNode_def lookupLease_Metadata Let_def
      cong: prod.case_cong sum.case_cong)

lemma new_requests_append:
  "requests e' = requests e @ qs \<Longrightarrow> new_requests e e' = qs"
  by (simp add: new_requests_def)

text \<open>
  C5: in \<open>registerNode\<close>, when the lease of the node (cached, or adopted from the store)
  was renewed by \<open>KeepAliveOnce\<close> without error and the hash cached for the domain under
  \<open>serviceName+nodeId\<close> equals the hash just computed for the node, the call returns
  \<open>nil\<close> in the state the renewal left, having sent no \<open>Grant\<close> and no \<open>Put\<close>.
  Conversely a call that sends a \<open>Grant\<close> or a \<open>Put\<close> got through the renewal and the
  hashing, and found no cache entry, or another hash in it, or had the lease reported
  missing by \<open>KeepAliveOnce\<close>.
\<close>

theorem registerNode_writes_only_changed_nodes:
  assumes dom: "domain = (if length (Domain_r options) = 0 then defaultDomain else Domain_r options)"
    and key: "key = Name s @ Id_n node"
  shows
  "(Nodes s \<noteq> []
      \<and> lookupLease cl lib s node domain e = (Inr leaseID, e1) \<and> leaseID > 0
      \<and> do_KeepAliveOnce cl leaseID e1 = (None, e2)
      \<and> hash_Hash lib node = Inr h \<and> cache_get (register e2) domain key = Some h
    \<longrightarrow> registerNode cl lib s node options e = (None, e2)
        \<and> \<not> list_ex is_write (new_requests e e2))
   \<and> (list_ex is_write (new_requests e (snd (registerNode cl lib s node options e)))
    \<longrightarrow> (\<exists>leaseID e1 leaseNotFound e2 h.
          lookupLease cl lib s node domain e = (Inr leaseID, e1)
        \<and> renewLease cl leaseID e1 = (Inr leaseNotFound, e2)
        \<and> hash_Hash lib node = Inr h
        \<and> (leaseNotFound \<longleftrightarrow>
             leaseID > 0 \<and> fst (client_KeepAliveOnce cl leaseID (client e1)) = Some ErrLeaseNotFound)
        \<and> (cache_get (register e2) domain key \<noteq> Some h \<or> leaseNotFound)))"
proof (intro conjI impI)
  assume h: "Nodes s \<noteq> []
      \<and> lookupLease cl lib s node domain e = (Inr leaseID, e1) \<and> leaseID > 0
      \<and> do_KeepAliveOnce cl leaseID e1 = (None, e2)
      \<and> hash_Hash lib node = Inr h \<and> cache_get (register e2) domain key = Some h"
  then have renew: "renewLease cl leaseID e1 = (Inr False, e2)"
    by (simp add: renewLease_def)
  from h renew show "registerNode cl lib s node options e = (None, e2)"
    by (simp add: registerNode_unfold [OF _ dom] key)
  from h obtain qs where qs: "requests e1 = requests e @ qs" "\<not> list_ex is_write qs"
    using lookupLease_requests by blast
  from h have "requests e2 = requests e1 @ [KeepAliveOnceReq leaseID]"
    using do_KeepAliveOnce_requests by blast
  with qs have "requests e2 = requests e @ (qs @ [KeepAliveOnceReq leaseID])"
    by simp
  then have "new_requests e e2 = qs @ [KeepAliveOnceReq leaseID]"
    by (rule new_requests_append)
  with qs show "\<not> list_ex is_write (new_requests e e2)"
    by simp
next
  assume wr: "list_ex is_write (new_requests e (snd (registerNode cl lib s node options e)))"
  have nodes: "Nodes s \<noteq> []"
  proof
    assume "Nodes s = []"
    then have "snd (registerNode cl lib s node options e) = e"
      by (simp add: registerNode_def)
    with wr show False by (simp add: new_requests_def)
  qed
  obtain r1 e1 where look: "lookupLease cl lib s node domain e = (r1, e1)"
    by (cases "lookupLease cl lib s node domain e")
  from lookupLease_requests [OF look]
  obtain qs1 where qs1: "requests e1 = requests e @ qs1" "\<not> list_ex is_write qs1"
    by blast
  show "\<exists>leaseID e1 leaseNotFound e2 h.
          lookupLease cl lib s node domain e = (Inr leaseID, e1)
        \<and> renewLease cl leaseID e1 = (Inr leaseNotFound, e2)
        \<and> hash_Hash lib node = Inr h
        \<and> (leaseNotFound \<longleftrightarrow>
             leaseID > 0 \<and> fst (client_KeepAliveOnce cl leaseID (client e1)) = Some ErrLeaseNotFound)
        \<and> (cache_get (register e2) domain key \<noteq> Some h \<or> leaseNotFound)"
  proof (cases r1)
    case (Inl err)
    with look nodes have "snd (registerNode cl lib s node options e) = e1"
      by (simp add: registerNode_unfold [OF _ dom])
    with wr qs1 show ?thesis
      by (simp add: new_requests_append)
  next
    case (Inr leaseID)
    obtain r2 e2 where renew: "renewLease cl leaseID e1 = (r2, e2)"
      by (cases "renewLease cl leaseID e1")
    from renewLease_requests [OF renew]
    obtain qs2 where qs2: "requests e2 = requests e1 @ qs2" "\<not> list_ex is_write qs2"
      by blast
    with qs1 have req2: "requests e2 = requests e @ (qs1 @ qs2)" "\<not> list_ex is_write (qs1 @ qs2)"
      by simp_all
    show ?thesis
    proof (cases r2)
      case (Inl err)
      with look Inr renew nodes have "snd (registerNode cl lib s node options e) = e2"
        by (simp add: registerNode_unfold [OF _ dom])
      with wr req2 show ?thesis
        by (simp add: new_requests_append)
    next
      case lnf: (Inr leaseNotFound)
      show ?thesis
      proof (cases "hash_Hash lib node")
        case (Inl err)
        with look Inr renew lnf nodes have "snd (registerNode cl lib s node options e) = e2"
          by (simp add: registerNode_unfold [OF _ dom])
        with wr req2 show ?thesis
          by (simp add: new_requests_append)
      next
        case hash: (Inr h)
        have "cache_get (register e2) domain key \<noteq> Some h \<or> leaseNotFound"
        proof (rule ccontr)
          assume "\<not> (cache_get (register e2) domain key \<noteq> Some h \<or> leaseNotFound)"
          with look Inr renew lnf hash nodes
          have "snd (registerNode cl lib s node options e) = e2"
            by (simp add: registerNode_unfold [OF _ dom] key)
          with wr req2 show False
            by (simp add: new_requests_append)
        qed
        with look Inr renew lnf hash renewLease_leaseNotFound [of cl leaseID e1 leaseNotFound e2]
        show ?thesis by blast
      qed
    qed
  qed
qed
theorem registerNode_writes_only_changed_nodes_witness:
  "registerNode mem_client line_lib service_n1 node_n1 register_30s cached_n1
     = (None, cached_n1\<lparr>requests := [KeepAliveOnceReq 1]\<rparr>)
   \<and> \<not> list_ex is_write (new_requests cached_n1 (cached_n1\<lparr>requests := [KeepAliveOnceReq 1]\<rparr>))
   \<and> list_ex is_write (new_requests (etcd_init mem_empty)
        (snd (registerNode mem_client line_lib service_n1 node_n1 register_30s (etcd_init mem_empty))))
   \<and> (\<exists>leaseID e1 leaseNotFound e2 h.
          lookupLease mem_client line_lib service_n1 node_n1 ''inf'' (etcd_init mem_empty)
            = (Inr leaseID, e1)
        \<and> renewLease mem_client leaseID e1 = (Inr leaseNotFound, e2)
        \<and> hash_Hash line_lib node_n1 = Inr h
        \<and> (leaseNotFound \<longleftrightarrow>
             leaseID > 0
             \<and> fst (client_KeepAliveOnce mem_client leaseID (client e1)) = Some ErrLeaseNotFound)
        \<and> (cache_get (register e2) ''inf'' ''svcn1'' \<noteq> Some h \<or> leaseNotFound))"
proof -
  have dom: "''inf'' =
      (if length (Domain_r register_30s) = 0 then defaultDomain else Domain_r register_30s)"
    by (simp add: register_30s_def defaultDomain_def)
  have key: "''svcn1'' = Name service_n1 @ Id_n node_n1"
    by (simp add: service_n1_def service_svc_def node_n1_def)
  have nodes: "Nodes service_n1 \<noteq> []"
    by (simp add: service_n1_def)
  have look: "lookupLease mem_client line_lib service_n1 node_n1 ''inf'' cached_n1 = (Inr 1, cached_n1)"
    by (simp add: lookupLease_def cached_n1_def ensure_domain_def cache_get_def service_n1_def
        service_svc_def node_n1_def Let_def del: Write.simps)
  have renewed: "do_KeepAliveOnce mem_client 1 cached_n1
      = (None, cached_n1\<lparr>requests := [KeepAliveOnceReq 1]\<rparr>)"
    by (simp add: do_KeepAliveOnce_def mem_client_def mem_KeepAliveOnce_def cached_n1_def
        store_n1_def del: Write.simps)
  have hash: "hash_Hash line_lib node_n1 = Inr (Write offset64 ''n1@10.0.0.1:80'')"
    by (simp add: line_lib_def node_n1_def del: Write.simps)
  have cache: "cache_get (register (cached_n1\<lparr>requests := [KeepAliveOnceReq 1]\<rparr>)) ''inf'' ''svcn1''
      = Some (Write offset64 ''n1@10.0.0.1:80'')"
    by (simp add: cached_n1_def cache_get_def del: Write.simps)
  have written: "list_ex is_write (new_requests (etcd_init mem_empty)
      (snd (registerNode mem_client line_lib service_n1 node_n1 register_30s (etcd_init mem_empty))))"
    by code_simp
  from registerNode_writes_only_changed_nodes [OF dom key,
      where cl = mem_client and lib = line_lib and e = cached_n1 and leaseID = 1
        and ?e1.0 = cached_n1 and ?e2.0 = "cached_n1\<lparr>requests := [KeepAliveOnceReq 1]\<rparr>"
        and h = "Write offset64 ''n1@10.0.0.1:80''"]
    nodes look renewed hash cache
  have skip: "registerNode mem_client line_lib service_n1 node_n1 register_30s cached_n1
       = (None, cached_n1\<lparr>requests := [KeepAliveOnceReq 1]\<rparr>)
     \<and> \<not> list_ex is_write (new_requests cached_n1 (cached_n1\<lparr>requests := [KeepAliveOnceReq 1]\<rparr>))"
    by simp
  from registerNode_writes_only_changed_nodes [OF dom key,
      where cl = mem_client and lib = line_lib and e = "etcd_init mem_empty"] written
  have "\<exists>leaseID e1 leaseNotFound e2 h.
          lookupLease mem_client line_lib service_n1 node_n1 ''inf'' (etcd_init mem_empty)
            = (Inr leaseID, e1)
        \<and> renewLease mem_client leaseID e1 = (Inr leaseNotFound, e2)
        \<and> hash_Hash line_lib node_n1 = Inr h
        \<and> (leaseNotFound \<longleftrightarrow>
             leaseID > 0
             \<and> fst (client_KeepAliveOnce mem_client leaseID (client e1)) = Some ErrLeaseNotFound)
        \<and> (cache_get (register e2) ''inf'' ''svcn1'' \<noteq> Some h \<or> leaseNotFound)"
    by blast
  with skip written show ?thesis
    by blast
qed

end
